theory Spec2Isabelle
  imports Complex_Main "HOL-Library.Monad_Syntax"
begin

section \<open>Numbers\<close>

text \<open>
  The TypeScript sources compute with \<^verbatim>\<open>number\<close>. The embedding reads a finite
  \<^verbatim>\<open>number\<close> as a real and every arithmetic operation as the exact one, so rounding,
  overflow and signed zeros are outside the model. A quotient whose divisor can be zero
  and a square root whose radicand can be negative go through \<open>js_div\<close> and \<open>Math_sqrt\<close>,
  which return \<open>None\<close> for the non-finite result. Where the source has made sure of the
  divisor before it divides (a constant, a number of points past a length check, a
  determinant past its guard, a radius the circle fit returned) the plain quotient stands.
\<close>

definition js_div :: "real \<Rightarrow> real \<Rightarrow> real option" where
  \<comment> \<open>\<^verbatim>\<open>a / b\<close>; \<open>None\<close> is the non-finite quotient (Infinity or NaN) of a zero divisor.\<close>
  "js_div a b = (if b = 0 then None else Some (a / b))"

definition Math_sqrt :: "real \<Rightarrow> real option" where
  \<comment> \<open>\<^verbatim>\<open>Math.sqrt\<close>; \<open>None\<close> is NaN, the root of a negative number.\<close>
  "Math_sqrt a = (if a < 0 then None else Some (sqrt a))"

definition Math_atan2 :: "real \<Rightarrow> real \<Rightarrow> real" where
  \<comment> \<open>\<^verbatim>\<open>Math.atan2(y, x)\<close> on finite arguments (no signed zero).\<close>
  "Math_atan2 y x =
     (if 0 < x then arctan (y / x)
      else if x < 0 \<and> 0 \<le> y then arctan (y / x) + pi
      else if x < 0 then arctan (y / x) - pi
      else if 0 < y then pi / 2
      else if y < 0 then - (pi / 2)
      else 0)"

section \<open>Tipover physics (src/lib/tipover-physics.ts)\<close>

text \<open>
  The interfaces \<^verbatim>\<open>Vector3\<close>, \<^verbatim>\<open>CylinderParams\<close> and \<^verbatim>\<open>PhysicsState\<close>. Field names carry a
  short prefix, since several interfaces share field names and \<^verbatim>\<open>PhysicsState\<close> has
  fields named like the functions that compute them.
\<close>

record Vector3 =
  v3_x :: real
  v3_y :: real
  v3_z :: real

record CylinderParams =
  cp_center :: Vector3
  cp_radius :: real
  cp_height :: real

record PhysicsState =
  ps_fillLevel :: real
  ps_tiltAngle :: real
  ps_centerOfMass :: Vector3
  ps_criticalTipoverAngle :: real
  ps_liquidVolume :: real
  ps_volumePoured :: real
  ps_isStable :: bool
  ps_stabilityMargin :: real

definition calculateCenterOfMass ::
  "real \<Rightarrow> Vector3 \<Rightarrow> real \<Rightarrow> real \<Rightarrow> Vector3 \<Rightarrow> Vector3 option" where
  \<comment> \<open>\<open>None\<close>: a component of the result is not finite (a division by zero happened).\<close>
  "calculateCenterOfMass cupMass cupCentroid liquidVolume liquidDensity liquidCentroid =
     (let liquidMass = liquidVolume * liquidDensity;
          totalMass = cupMass + liquidMass
      in if totalMass = 0 then Some cupCentroid
         else do {
           x \<leftarrow> js_div (cupMass * v3_x cupCentroid + liquidMass * v3_x liquidCentroid) totalMass;
           y \<leftarrow> js_div (cupMass * v3_y cupCentroid + liquidMass * v3_y liquidCentroid) totalMass;
           z \<leftarrow> js_div (cupMass * v3_z cupCentroid + liquidMass * v3_z liquidCentroid) totalMass;
           Some \<lparr>v3_x = x, v3_y = y, v3_z = z\<rparr>
         })"

definition calculateLiquidCentroid :: "CylinderParams \<Rightarrow> real \<Rightarrow> Vector3" where
  "calculateLiquidCentroid cylinder fillLevel =
     (let liquidHeight = cp_height cylinder * fillLevel
      in \<lparr>v3_x = v3_x (cp_center cylinder),
          v3_y = v3_y (cp_center cylinder) + liquidHeight / 2,
          v3_z = v3_z (cp_center cylinder)\<rparr>)"

definition calculateLiquidVolume :: "CylinderParams \<Rightarrow> real \<Rightarrow> real" where
  "calculateLiquidVolume cylinder fillLevel =
     (let liquidHeight = cp_height cylinder * fillLevel
      in pi * (cp_radius cylinder)\<^sup>2 * liquidHeight)"

definition criticalTipoverAngle :: "Vector3 \<Rightarrow> real \<Rightarrow> Vector3 \<Rightarrow> real" where
  \<comment> \<open>The radicand of \<^verbatim>\<open>Math.sqrt\<close> is a sum of two squares, so the root is never NaN.\<close>
  "criticalTipoverAngle centerOfMass baseRadius baseCenter =
     (let horizontalDist =
            sqrt ((v3_x centerOfMass - v3_x baseCenter)\<^sup>2 +
                  (v3_z centerOfMass - v3_z baseCenter)\<^sup>2);
          verticalDist = v3_y centerOfMass - v3_y baseCenter
      in if verticalDist \<le> 0 then pi / 2
         else let effectiveRadius = baseRadius - horizontalDist
              in if effectiveRadius \<le> 0 then 0
                 else Math_atan2 effectiveRadius verticalDist)"

definition volumePoured :: "real \<Rightarrow> CylinderParams \<Rightarrow> real \<Rightarrow> real" where
  \<comment> \<open>\<^verbatim>\<open>Math.tan\<close> is \<open>tan\<close>; at the odd multiples of \<open>pi / 2\<close>, which no \<^verbatim>\<open>number\<close> equals,
      \<open>tan\<close> is 0 in HOL.\<close>
  "volumePoured tiltAngle cylinder fillLevel =
     (if tiltAngle \<le> 0 then 0
      else let liquidHeight = cp_height cylinder * fillLevel;
               r = cp_radius cylinder;
               rimDropOnLowSide = 2 * r * sin tiltAngle;
               liquidHeightAboveRim =
                 liquidHeight * cos tiltAngle -
                 (cp_height cylinder - liquidHeight) * tan tiltAngle
           in if liquidHeightAboveRim \<le> 0 then 0
              else let spillHeight = min liquidHeightAboveRim rimDropOnLowSide;
                       spillVolume = spillHeight * r * r * sin tiltAngle
                   in max 0 spillVolume)"

definition calculatePhysicsState ::
  "CylinderParams \<Rightarrow> real \<Rightarrow> real \<Rightarrow> real \<Rightarrow> real \<Rightarrow> PhysicsState option" where
  \<comment> \<open>\<open>None\<close> only where \<open>calculateCenterOfMass\<close> is.\<close>
  "calculatePhysicsState cylinder fillLevel0 tiltAngle0 cupMass liquidDensity =
     (let fillLevel = max 0 (min 1 fillLevel0);
          tiltAngle = max 0 (min (pi / 2) tiltAngle0);
          cupCentroid = \<lparr>v3_x = v3_x (cp_center cylinder),
                         v3_y = v3_y (cp_center cylinder) + cp_height cylinder / 2,
                         v3_z = v3_z (cp_center cylinder)\<rparr>;
          liquidVolume = calculateLiquidVolume cylinder fillLevel;
          liquidCentroid = calculateLiquidCentroid cylinder fillLevel
      in do {
        centerOfMass \<leftarrow>
          calculateCenterOfMass cupMass cupCentroid liquidVolume liquidDensity liquidCentroid;
        let baseCenter = \<lparr>v3_x = v3_x (cp_center cylinder),
                           v3_y = v3_y (cp_center cylinder),
                           v3_z = v3_z (cp_center cylinder)\<rparr>;
            criticalAngle = criticalTipoverAngle centerOfMass (cp_radius cylinder) baseCenter;
            poured = volumePoured tiltAngle cylinder fillLevel;
            isStable = (tiltAngle < criticalAngle);
            stabilityMargin = (criticalAngle - tiltAngle) * (180 / pi)
        in Some \<lparr>ps_fillLevel = fillLevel,
                 ps_tiltAngle = tiltAngle,
                 ps_centerOfMass = centerOfMass,
                 ps_criticalTipoverAngle = criticalAngle,
                 ps_liquidVolume = liquidVolume,
                 ps_volumePoured = poured,
                 ps_isStable = isStable,
                 ps_stabilityMargin = stabilityMargin\<rparr>
      })"

section \<open>Circle and cylinder fitting (src/lib/cylinder-fitting.ts)\<close>

text \<open>
  The tuples \<^verbatim>\<open>[number, number]\<close> and \<^verbatim>\<open>[number, number, number]\<close> are pairs and triples
  of reals; \<^verbatim>\<open>number[][]\<close> is a list of rows.
\<close>

type_synonym vec2 = "real \<times> real"

type_synonym vec3 = "real \<times> real \<times> real"

record Circle2D =
  c2_center :: vec2
  c2_radius :: real

definition determinant3x3 :: "real list list \<Rightarrow> real" where
  \<comment> \<open>Only ever applied to three rows of three entries.\<close>
  "determinant3x3 m =
     m ! 0 ! 0 * (m ! 1 ! 1 * m ! 2 ! 2 - m ! 1 ! 2 * m ! 2 ! 1) -
     m ! 0 ! 1 * (m ! 1 ! 0 * m ! 2 ! 2 - m ! 1 ! 2 * m ! 2 ! 0) +
     m ! 0 ! 2 * (m ! 1 ! 0 * m ! 2 ! 1 - m ! 1 ! 1 * m ! 2 ! 0)"

definition replaceColumn :: "real list list \<Rightarrow> real list \<Rightarrow> nat \<Rightarrow> real list list" where
  \<comment> \<open>\<^verbatim>\<open>m.map((row, i) => row.map((val, j) => (j === idx ? col[i] : val)))\<close>\<close>
  "replaceColumn m col idx =
     map (\<lambda>(i, row). map (\<lambda>(j, val). if j = idx then col ! i else val) (enumerate 0 row))
       (enumerate 0 m)"

definition fitCircle2D :: "vec2 list \<Rightarrow> Circle2D option" where
  \<comment> \<open>The accumulation loop over the points is written as nine list sums. \<open>None\<close> is
      \<^verbatim>\<open>null\<close>. \<^verbatim>\<open>!isFinite(radius)\<close> holds exactly when the root is NaN: with a determinant
      of absolute value at least \<^verbatim>\<open>1e-10\<close> the quotients are finite.\<close>
  "fitCircle2D points =
     (if length points < 3 then None
      else let n = real (length points);
               sumX = sum_list (map (\<lambda>(x, y). x) points);
               sumY = sum_list (map (\<lambda>(x, y). y) points);
               sumX2 = sum_list (map (\<lambda>(x, y). x * x) points);
               sumY2 = sum_list (map (\<lambda>(x, y). y * y) points);
               sumXY = sum_list (map (\<lambda>(x, y). x * y) points);
               sumX3 = sum_list (map (\<lambda>(x, y). x * x * x) points);
               sumY3 = sum_list (map (\<lambda>(x, y). y * y * y) points);
               sumX2Y = sum_list (map (\<lambda>(x, y). x * x * y) points);
               sumXY2 = sum_list (map (\<lambda>(x, y). x * y * y) points);
               A = [[sumX2, sumXY, sumX],
                    [sumXY, sumY2, sumY],
                    [sumX, sumY, n]];
               B = [(sumX3 + sumXY2) / 2,
                    (sumX2Y + sumY3) / 2,
                    (sumX2 + sumY2) / 2];
               det = determinant3x3 A
           in if \<bar>det\<bar> < 1 / 10 ^ 10 then None
              else let a = determinant3x3 (replaceColumn A B 0) / det;
                       b = determinant3x3 (replaceColumn A B 1) / det;
                       c = determinant3x3 (replaceColumn A B 2) / det
                   in case Math_sqrt (c + a * a + b * b) of
                        None \<Rightarrow> None
                      | Some radius \<Rightarrow>
                          if radius \<le> 0 then None
                          else Some \<lparr>c2_center = (a, b), c2_radius = radius\<rparr>)"

subsection \<open>The circle fit as the specification words it\<close>

text \<open>
  The normal equations of the specification, written with scalars: the nine sums, the
  determinant of the system, and the solution by Cramer's rule.
\<close>

definition det3 ::
  "real \<Rightarrow> real \<Rightarrow> real \<Rightarrow> real \<Rightarrow> real \<Rightarrow> real \<Rightarrow> real \<Rightarrow> real \<Rightarrow> real \<Rightarrow> real" where
  "det3 a11 a12 a13 a21 a22 a23 a31 a32 a33 =
     a11 * (a22 * a33 - a23 * a32) - a12 * (a21 * a33 - a23 * a31) + a13 * (a21 * a32 - a22 * a31)"

definition moment :: "nat \<Rightarrow> nat \<Rightarrow> vec2 list \<Rightarrow> real" where
  \<comment> \<open>The sum of \<open>x ^ i * y ^ j\<close> over the points.\<close>
  "moment i j points = sum_list (map (\<lambda>(x, y). x ^ i * y ^ j) points)"

definition spec_det :: "vec2 list \<Rightarrow> real" where
  "spec_det ps =
     det3 (moment 2 0 ps) (moment 1 1 ps) (moment 1 0 ps)
          (moment 1 1 ps) (moment 0 2 ps) (moment 0 1 ps)
          (moment 1 0 ps) (moment 0 1 ps) (real (length ps))"

definition spec_a :: "vec2 list \<Rightarrow> real" where
  "spec_a ps =
     det3 ((moment 3 0 ps + moment 1 2 ps) / 2) (moment 1 1 ps) (moment 1 0 ps)
          ((moment 2 1 ps + moment 0 3 ps) / 2) (moment 0 2 ps) (moment 0 1 ps)
          ((moment 2 0 ps + moment 0 2 ps) / 2) (moment 0 1 ps) (real (length ps))
     / spec_det ps"

definition spec_b :: "vec2 list \<Rightarrow> real" where
  "spec_b ps =
     det3 (moment 2 0 ps) ((moment 3 0 ps + moment 1 2 ps) / 2) (moment 1 0 ps)
          (moment 1 1 ps) ((moment 2 1 ps + moment 0 3 ps) / 2) (moment 0 1 ps)
          (moment 1 0 ps) ((moment 2 0 ps + moment 0 2 ps) / 2) (real (length ps))
     / spec_det ps"

definition spec_c :: "vec2 list \<Rightarrow> real" where
  "spec_c ps =
     det3 (moment 2 0 ps) (moment 1 1 ps) ((moment 3 0 ps + moment 1 2 ps) / 2)
          (moment 1 1 ps) (moment 0 2 ps) ((moment 2 1 ps + moment 0 3 ps) / 2)
          (moment 1 0 ps) (moment 0 1 ps) ((moment 2 0 ps + moment 0 2 ps) / 2)
     / spec_det ps"

definition spec_radicand :: "vec2 list \<Rightarrow> real" where
  \<comment> \<open>The number under the root in \<open>radius = sqrt(c + a\<^sup>2 + b\<^sup>2)\<close>.\<close>
  "spec_radicand ps = spec_c ps + (spec_a ps)\<^sup>2 + (spec_b ps)\<^sup>2"

definition collinear3 :: "vec2 \<Rightarrow> vec2 \<Rightarrow> vec2 \<Rightarrow> bool" where
  "collinear3 p q r \<longleftrightarrow>
     (fst q - fst p) * (snd r - snd p) = (fst r - fst p) * (snd q - snd p)"

subsection \<open>RANSAC and the cylinder fit\<close>

text \<open>
  \<^verbatim>\<open>Math.random\<close> is the only source of nondeterminism. A run is modelled against a tape:
  the finite list of the values \<^verbatim>\<open>Math.floor(Math.random() * points.length)\<close> takes, in the
  order of the calls. A function that draws returns the unread rest of the tape with its
  result. It returns \<open>None\<close> when the tape is no complete run: the tape ends while the
  sampling loop still draws (the loop has no bound of its own), or a draw is not an index
  of the list (\<^verbatim>\<open>Math.random\<close> yields values from 0 up to but not including 1, so the drawn
  index is below the length).
\<close>

type_synonym tape = "nat list"

record CylinderFit =
  cf_center :: vec3
  cf_radius :: real
  cf_height :: real
  cf_axis :: "vec3 option"
  cf_confidence :: real

text \<open>
  In \<open>cf_axis\<close>, \<open>None\<close> is the vector of three NaN, the only non-finite axis the
  orientation detection can produce from finite points in exact arithmetic.
\<close>

fun sampleIndices :: "nat \<Rightarrow> nat list \<Rightarrow> tape \<Rightarrow> (nat list \<times> tape) option" where
  \<comment> \<open>\<^verbatim>\<open>while (indices.size < 3) indices.add(Math.floor(Math.random() * points.length))\<close>;
      the \<^verbatim>\<open>Set\<close> is the list of its members in insertion order, as \<^verbatim>\<open>Array.from\<close> reads it.\<close>
  "sampleIndices n indices [] = (if length indices < 3 then None else Some (indices, []))"
| "sampleIndices n indices (i # rest) =
     (if length indices < 3
      then if i < n
           then sampleIndices n (if i \<in> set indices then indices else indices @ [i]) rest
           else None
      else Some (indices, i # rest))"

definition isInlier :: "Circle2D \<Rightarrow> real \<Rightarrow> vec2 \<Rightarrow> bool" where
  \<comment> \<open>\<^verbatim>\<open>dist < threshold\<close>, where \<^verbatim>\<open>dist\<close> is the distance of the point from the circle line.\<close>
  "isInlier circle threshold p =
     (case p of (x, y) \<Rightarrow>
        \<bar>sqrt ((x - fst (c2_center circle))\<^sup>2 + (y - snd (c2_center circle))\<^sup>2)
           - c2_radius circle\<bar> < threshold)"

fun ransacLoop ::
  "vec2 list \<Rightarrow> real \<Rightarrow> nat \<Rightarrow> Circle2D option \<Rightarrow> nat \<Rightarrow> tape
     \<Rightarrow> ((Circle2D option \<times> nat) \<times> tape) option" where
  \<comment> \<open>The \<^verbatim>\<open>for\<close> loop with the iterations still to run, \<^verbatim>\<open>bestCircle\<close> and \<^verbatim>\<open>bestInliers\<close>.\<close>
  "ransacLoop points threshold 0 bestCircle bestInliers t = Some ((bestCircle, bestInliers), t)"
| "ransacLoop points threshold (Suc k) bestCircle bestInliers t =
     (case sampleIndices (length points) [] t of
        None \<Rightarrow> None
      | Some (indices, t') \<Rightarrow>
          (case fitCircle2D (map (\<lambda>i. points ! i) indices) of
             None \<Rightarrow> ransacLoop points threshold k bestCircle bestInliers t'
           | Some circle \<Rightarrow>
               let inliers = length (filter (isInlier circle threshold) points)
               in if inliers > bestInliers
                  then ransacLoop points threshold k (Some circle) inliers t'
                  else ransacLoop points threshold k bestCircle bestInliers t'))"

definition refitInliers :: "vec2 list \<Rightarrow> real \<Rightarrow> Circle2D option \<Rightarrow> Circle2D option" where
  \<comment> \<open>The block after the loop: refit with all inliers of the best circle.\<close>
  "refitInliers points threshold bestCircle =
     (case bestCircle of
        None \<Rightarrow> None
      | Some best \<Rightarrow>
          let inlierPoints = filter (isInlier best threshold) points
          in if length inlierPoints \<ge> 3
             then (case fitCircle2D inlierPoints of
                     Some refined \<Rightarrow> Some refined
                   | None \<Rightarrow> Some best)
             else Some best)"

definition fitCircleRANSAC ::
  "vec2 list \<Rightarrow> nat \<Rightarrow> real \<Rightarrow> tape \<Rightarrow> (Circle2D option \<times> tape) option" where
  "fitCircleRANSAC points iterations threshold t =
     (if length points < 3 then Some (None, t)
      else case ransacLoop points threshold iterations None 0 t of
             None \<Rightarrow> None
           | Some ((bestCircle, bestInliers), t') \<Rightarrow>
               Some (refitInliers points threshold bestCircle, t'))"

definition fitCylinder ::
  "vec3 list \<Rightarrow> vec3 option \<Rightarrow> tape \<Rightarrow> (CylinderFit option \<times> tape) option" where
  \<comment> \<open>\<^verbatim>\<open>minY\<close> and \<^verbatim>\<open>maxY\<close> are folded from \<^verbatim>\<open>Infinity\<close> and \<^verbatim>\<open>-Infinity\<close> over at least ten
      points, so they are the least and the greatest \<open>y\<close>. The divisors are the number of
      points and a radius \<open>fitCircle2D\<close> returned.\<close>
  "fitCylinder positions axis t =
     (if length positions < 10 then Some (None, t)
      else let projectedPoints = map (\<lambda>(x, y, z). (x, z)) positions
           in case fitCircleRANSAC projectedPoints 200 (5 / 100) t of
                None \<Rightarrow> None
              | Some (None, t') \<Rightarrow> Some (None, t')
              | Some (Some circle, t') \<Rightarrow>
                  let minY = Min (set (map (\<lambda>(x, y, z). y) positions));
                      maxY = Max (set (map (\<lambda>(x, y, z). y) positions));
                      height = maxY - minY
                  in if height \<le> 0 then Some (None, t')
                     else let totalError =
                                sum_list (map (\<lambda>(x, y, z).
                                  \<bar>sqrt ((x - fst (c2_center circle))\<^sup>2 +
                                         (z - snd (c2_center circle))\<^sup>2)
                                     - c2_radius circle\<bar>) positions);
                              avgError = totalError / real (length positions);
                              confidence = max 0 (1 - avgError / c2_radius circle)
                          in Some (Some \<lparr>cf_center = (fst (c2_center circle), minY,
                                                        snd (c2_center circle)),
                                         cf_radius = c2_radius circle,
                                         cf_height = height,
                                         cf_axis = axis,
                                         cf_confidence = confidence\<rparr>, t'))"

section \<open>Volume detection (src/lib/volume-detection.ts)\<close>

record PlyPoint =
  pp_position :: vec3
  pp_color :: "(real \<times> real \<times> real \<times> real) option"
  pp_normal :: "vec3 option"

record Bounds =
  b_min :: vec3
  b_max :: vec3
  b_center :: vec3

record ParsedPly =
  ply_points :: "PlyPoint list"
  ply_positions :: "real list"
  ply_bounds :: Bounds
  ply_vertexCount :: nat

datatype Orientation = upright | inverted | sideways

record VolumeDetectionResult =
  vd_cylinder :: CylinderFit
  vd_rimHeight :: real
  vd_baseHeight :: real
  vd_interiorVolume :: real
  vd_orientation :: Orientation

record Density =
  d_height :: real
  d_count :: nat

definition getPositions :: "ParsedPly \<Rightarrow> vec3 list" where
  "getPositions ply = map pp_position (ply_points ply)"

definition computeCovariance :: "vec3 list \<Rightarrow> real list list" where
  \<comment> \<open>Called on at least 100 positions only, so the divisor \<open>n\<close> is not 0.\<close>
  "computeCovariance positions =
     (let n = real (length positions);
          meanX = sum_list (map (\<lambda>(x, y, z). x) positions) / n;
          meanY = sum_list (map (\<lambda>(x, y, z). y) positions) / n;
          meanZ = sum_list (map (\<lambda>(x, y, z). z) positions) / n;
          c00 = sum_list (map (\<lambda>(x, y, z). (x - meanX) * (x - meanX)) positions);
          c01 = sum_list (map (\<lambda>(x, y, z). (x - meanX) * (y - meanY)) positions);
          c02 = sum_list (map (\<lambda>(x, y, z). (x - meanX) * (z - meanZ)) positions);
          c11 = sum_list (map (\<lambda>(x, y, z). (y - meanY) * (y - meanY)) positions);
          c12 = sum_list (map (\<lambda>(x, y, z). (y - meanY) * (z - meanZ)) positions);
          c22 = sum_list (map (\<lambda>(x, y, z). (z - meanZ) * (z - meanZ)) positions);
          cov = [[c00, c01, c02], [c01, c11, c12], [c02, c12, c22]]
      in map (\<lambda>row. map (\<lambda>v. v / n) row) cov)"

fun powerIteration :: "nat \<Rightarrow> real list list \<Rightarrow> vec3 option \<Rightarrow> vec3 option" where
  \<comment> \<open>The iterations still to run and the current \<^verbatim>\<open>v\<close>. The length is 0 only when all of
      \<^verbatim>\<open>newV\<close> is 0; then the three quotients are NaN, and they stay NaN.\<close>
  "powerIteration 0 cov v = v"
| "powerIteration (Suc k) cov None = powerIteration k cov None"
| "powerIteration (Suc k) cov (Some (v0, v1, v2)) =
     (let newV0 = cov ! 0 ! 0 * v0 + cov ! 0 ! 1 * v1 + cov ! 0 ! 2 * v2;
          newV1 = cov ! 1 ! 0 * v0 + cov ! 1 ! 1 * v1 + cov ! 1 ! 2 * v2;
          newV2 = cov ! 2 ! 0 * v0 + cov ! 2 ! 1 * v1 + cov ! 2 ! 2 * v2;
          len = sqrt (newV0\<^sup>2 + newV1\<^sup>2 + newV2\<^sup>2)
      in powerIteration k cov
           (do { a \<leftarrow> js_div newV0 len; b \<leftarrow> js_div newV1 len; c \<leftarrow> js_div newV2 len;
                 Some (a, b, c) }))"

definition dominantEigenvector :: "real list list \<Rightarrow> vec3 option" where
  "dominantEigenvector cov = powerIteration 50 cov (Some (1, 0, 0))"

definition detectOrientation :: "vec3 list \<Rightarrow> vec3 option \<times> Orientation" where
  \<comment> \<open>The pair of \<^verbatim>\<open>axis\<close> and \<^verbatim>\<open>orientation\<close>. A comparison with NaN is false.\<close>
  "detectOrientation positions =
     (let cov = computeCovariance positions
      in case dominantEigenvector cov of
           None \<Rightarrow> (None, sideways)
         | Some (p0, p1, p2) \<Rightarrow>
             let verticalDot = \<bar>p1\<bar>
             in if verticalDot > 7 / 10
                then (Some (0, 1, 0), if p1 > 0 then upright else inverted)
                else (Some (p0, p1, p2), sideways))"

definition sliceAtHeight :: "vec3 list \<Rightarrow> real \<Rightarrow> real \<Rightarrow> vec2 list" where
  "sliceAtHeight positions height thickness =
     map (\<lambda>(x, y, z). (x, z))
       (filter (\<lambda>(x, y, z). \<bar>y - height\<bar> < thickness / 2) positions)"

fun scanFromTop :: "Density list \<Rightarrow> real \<Rightarrow> nat \<Rightarrow> real option" where
  \<comment> \<open>\<^verbatim>\<open>for (let i = densities.length - 1; i >= 0; i--)\<close>, entered with the length; \<open>None\<close>
      when the loop ends without a \<^verbatim>\<open>return\<close>.\<close>
  "scanFromTop densities threshold 0 = None"
| "scanFromTop densities threshold (Suc i) =
     (if real (d_count (densities ! i)) > threshold then Some (d_height (densities ! i))
      else scanFromTop densities threshold i)"

definition findRimHeight :: "vec3 list \<Rightarrow> real \<Rightarrow> real \<Rightarrow> nat \<Rightarrow> real" where
  \<comment> \<open>With no slices \<^verbatim>\<open>Math.max()\<close> is \<^verbatim>\<open>-Infinity\<close> and the scan has nothing to visit.\<close>
  "findRimHeight positions minY maxY numSlices =
     (let sliceThickness = (maxY - minY) / real numSlices;
          densities =
            map (\<lambda>i. let height = minY + (real i + 1 / 2) * sliceThickness;
                         slice = sliceAtHeight positions height sliceThickness
                     in \<lparr>d_height = height, d_count = length slice\<rparr>) [0..<numSlices]
      in if densities = [] then maxY
         else let maxDensity = Max (set (map d_count densities));
                  threshold = real maxDensity * (3 / 10)
              in case scanFromTop densities threshold (length densities) of
                   Some height \<Rightarrow> height
                 | None \<Rightarrow> maxY)"

definition detectVolume ::
  "ParsedPly \<Rightarrow> tape \<Rightarrow> (VolumeDetectionResult option \<times> tape) option" where
  "detectVolume ply t =
     (let positions = getPositions ply
      in if length positions < 100 then Some (None, t)
         else let (axis, orientation) = detectOrientation positions;
                  minY = fst (snd (b_min (ply_bounds ply)));
                  maxY = fst (snd (b_max (ply_bounds ply)));
                  rimHeight = findRimHeight positions minY maxY 20;
                  rimPoints = sliceAtHeight positions rimHeight ((maxY - minY) * (1 / 10))
              in case fitCircleRANSAC rimPoints 200 (5 / 100) t of
                   None \<Rightarrow> None
                 | Some (None, t') \<Rightarrow>
                     (case fitCylinder positions (Some (0, 1, 0)) t' of
                        None \<Rightarrow> None
                      | Some (None, t'') \<Rightarrow> Some (None, t'')
                      | Some (Some cylinder, t'') \<Rightarrow>
                          let volume = pi * (cf_radius cylinder)\<^sup>2 * cf_height cylinder
                          in Some (Some \<lparr>vd_cylinder = cylinder,
                                         vd_rimHeight =
                                           fst (snd (cf_center cylinder)) + cf_height cylinder,
                                         vd_baseHeight = fst (snd (cf_center cylinder)),
                                         vd_interiorVolume = volume,
                                         vd_orientation = orientation\<rparr>, t''))
                 | Some (Some rimCircle, t') \<Rightarrow>
                     let interiorRadius = c2_radius rimCircle * (85 / 100);
                         baseHeight = minY;
                         height = rimHeight - baseHeight;
                         cylinder = \<lparr>cf_center = (fst (c2_center rimCircle), baseHeight,
                                                   snd (c2_center rimCircle)),
                                     cf_radius = interiorRadius,
                                     cf_height = max (1 / 100) height,
                                     cf_axis = axis,
                                     cf_confidence = 8 / 10\<rparr>;
                         volume = pi * interiorRadius\<^sup>2 * height
                     in Some (Some \<lparr>vd_cylinder = cylinder,
                                    vd_rimHeight = rimHeight,
                                    vd_baseHeight = baseHeight,
                                    vd_interiorVolume = max 0 volume,
                                    vd_orientation = orientation\<rparr>, t'))"

subsection \<open>Rim detection as the specification words it\<close>

text \<open>
  The twenty bands of the vertical extent: the centre of band \<open>i\<close>, the number of points
  strictly within half a band thickness of that centre, and the threshold, three tenths of
  the greatest count.
\<close>

definition spec_bandCenter :: "real \<Rightarrow> real \<Rightarrow> nat \<Rightarrow> real" where
  "spec_bandCenter minY maxY i = minY + (real i + 1 / 2) * ((maxY - minY) / 20)"

definition spec_bandCount :: "vec3 list \<Rightarrow> real \<Rightarrow> real \<Rightarrow> nat \<Rightarrow> nat" where
  "spec_bandCount positions minY maxY i =
     length (filter (\<lambda>(x, y, z). \<bar>y - spec_bandCenter minY maxY i\<bar> < (maxY - minY) / 20 / 2)
       positions)"

definition spec_rimThreshold :: "vec3 list \<Rightarrow> real \<Rightarrow> real \<Rightarrow> real" where
  "spec_rimThreshold positions minY maxY =
     (3 / 10) * real (Max (spec_bandCount positions minY maxY ` {..<20}))"

section \<open>Example inputs\<close>

text \<open>
  A point cloud used to run the detector on concrete data: three points of the circle
  with centre \<open>(1, 0)\<close> and radius 1 in the XZ plane, then copies of a fourth point of that
  circle, the origin. The tape draws the first three points in the first iteration and
  three copies of the origin in each of the 199 others.
\<close>

definition ring2d :: "nat \<Rightarrow> vec2 list" where
  "ring2d m = [(2, 0), (1, 1), (1, - 1)] @ replicate m (0, 0)"

definition ring_tape :: tape where
  "ring_tape = [0, 1, 2] @ concat (replicate 199 [3, 4, 5])"

definition ring3d :: "real \<Rightarrow> real \<Rightarrow> real \<Rightarrow> vec3 list" where
  \<comment> \<open>98 points at height \<open>yr\<close>, one at \<open>lo\<close> and one at \<open>hi\<close>.\<close>
  "ring3d yr lo hi =
     [(2, yr, 0), (1, yr, 1), (1, yr, - 1)] @ replicate 95 (0, yr, 0) @ [(0, lo, 0), (0, hi, 0)]"

definition ring_ply :: "real \<Rightarrow> real \<Rightarrow> real \<Rightarrow> ParsedPly" where
  \<comment> \<open>The cloud \<open>ring3d yr lo hi\<close> as the parser delivers it, for \<open>lo \<le> yr \<le> hi\<close>.\<close>
  "ring_ply yr lo hi =
     \<lparr>ply_points = map (\<lambda>p. \<lparr>pp_position = p, pp_color = None, pp_normal = None\<rparr>)
                       (ring3d yr lo hi),
      ply_positions = concat (map (\<lambda>(x, y, z). [x, y, z]) (ring3d yr lo hi)),
      ply_bounds = \<lparr>b_min = (0, lo, - 1), b_max = (2, hi, 1), b_center = (1, (lo + hi) / 2, 0)\<rparr>,
      ply_vertexCount = 100\<rparr>"

definition unit_circle :: Circle2D where
  "unit_circle = \<lparr>c2_center = (1, 0), c2_radius = 1\<rparr>"

definition rimY :: "real \<Rightarrow> real \<Rightarrow> real" where
  \<comment> \<open>The centre height of the topmost of the twenty bands between \<open>lo\<close> and \<open>hi\<close>.\<close>
  "rimY lo hi = lo + (39 / 40) * (hi - lo)"

definition tiny_cup_result :: VolumeDetectionResult where
  \<comment> \<open>What the detector returns for the cloud \<open>ring_ply (39 / 4000) 0 (1 / 100)\<close>, a cup one
      hundredth of a unit tall.\<close>
  "tiny_cup_result =
     \<lparr>vd_cylinder =
        \<lparr>cf_center = (1, 0, 0), cf_radius = 85 / 100, cf_height = 1 / 100,
         cf_axis = fst (detectOrientation (ring3d (39 / 4000) 0 (1 / 100))),
         cf_confidence = 8 / 10\<rparr>,
      vd_rimHeight = 39 / 4000,
      vd_baseHeight = 0,
      vd_interiorVolume = pi * (85 / 100)\<^sup>2 * (39 / 4000),
      vd_orientation = snd (detectOrientation (ring3d (39 / 4000) 0 (1 / 100)))\<rparr>"

section \<open>Intermediate values and the specification's projection\<close>

text \<open>
  The values of the locals \<^verbatim>\<open>rimHeight\<close> and \<^verbatim>\<open>rimCircle\<close> of \<^verbatim>\<open>detectVolume\<close>, for theorems that
  speak about them.
\<close>

definition detectVolume_rimHeight :: "ParsedPly \<Rightarrow> real" where
  "detectVolume_rimHeight ply =
     findRimHeight (getPositions ply) (fst (snd (b_min (ply_bounds ply))))
       (fst (snd (b_max (ply_bounds ply)))) 20"

definition detectVolume_rimCircle :: "ParsedPly \<Rightarrow> tape \<Rightarrow> (Circle2D option \<times> tape) option" where
  "detectVolume_rimCircle ply t =
     fitCircleRANSAC
       (sliceAtHeight (getPositions ply) (detectVolume_rimHeight ply)
          ((fst (snd (b_max (ply_bounds ply))) - fst (snd (b_min (ply_bounds ply)))) * (1 / 10)))
       200 (5 / 100) t"

text \<open>
  The specification's projection onto the plane orthogonal to an axis, in its own words
  ``drop the axis coordinate'', for the three coordinate axes.
\<close>

datatype CoordinateAxis = AxisX | AxisY | AxisZ

fun axisVector :: "CoordinateAxis \<Rightarrow> vec3" where
  "axisVector AxisX = (1, 0, 0)"
| "axisVector AxisY = (0, 1, 0)"
| "axisVector AxisZ = (0, 0, 1)"

fun spec_dropAxisCoordinate :: "CoordinateAxis \<Rightarrow> vec3 \<Rightarrow> vec2" where
  "spec_dropAxisCoordinate AxisX (x, y, z) = (y, z)"
| "spec_dropAxisCoordinate AxisY (x, y, z) = (x, z)"
| "spec_dropAxisCoordinate AxisZ (x, y, z) = (x, y)"

definition circleOf :: "CylinderFit \<Rightarrow> Circle2D" where
  \<comment> \<open>The circle a cylinder stands on: centre without the height, and radius.\<close>
  "circleOf cyl =
     \<lparr>c2_center = (fst (cf_center cyl), snd (snd (cf_center cyl))), c2_radius = cf_radius cyl\<rparr>"

section \<open>Double precision\<close>

text \<open>
  Two claims depend on how the sources' arithmetic rounds: whether three collinear points
  leave a determinant below the guard of \<^verbatim>\<open>fitCircle2D\<close>, and to which band \<^verbatim>\<open>findRimHeight\<close>
  counts a point that lies on a band edge. For them the two functions are modelled a
  second time, in IEEE 754 binary64 with rounding to nearest, ties to even: every
  arithmetic operation of the source is the exact operation followed by \<open>fl\<close>. The
  exponent range is unbounded, so overflow to Infinity and subnormal numbers are outside
  this model as well; a number literal \<^verbatim>\<open>0.3\<close> is \<open>fl (3 / 10)\<close>. Counts and indices are
  integers far below \<open>2 ^ 53\<close> and are exact.
\<close>

function f64_exponent :: "real \<Rightarrow> int" where
  \<comment> \<open>For \<open>x > 0\<close> the \<open>e\<close> with \<open>2 ^ e \<le> x < 2 ^ (e + 1)\<close>.\<close>
  "f64_exponent x =
     (if 2 \<le> x then f64_exponent (x / 2) + 1
      else if 0 < x \<and> x < 1 then f64_exponent (2 * x) - 1
      else 0)"
  by pat_completeness auto
termination
proof (relation "measure (\<lambda>x. if 1 \<le> x then nat \<lfloor>log 2 x\<rfloor> else nat \<lceil>- log 2 x\<rceil>)")
  show "wf (measure (\<lambda>x. if 1 \<le> x then nat \<lfloor>log 2 x\<rfloor> else nat \<lceil>- log 2 x\<rceil>))"
    by simp
next
  fix x :: real
  assume x: "2 \<le> x"
  then have l: "log 2 (x / 2) = log 2 x - 1" by (simp add: log_divide)
  have "1 \<le> log 2 x" using x by (simp add: le_log_iff)
  then have "1 \<le> \<lfloor>log 2 x\<rfloor>" by linarith
  then show "(x / 2, x) \<in> measure (\<lambda>x. if 1 \<le> x then nat \<lfloor>log 2 x\<rfloor> else nat \<lceil>- log 2 x\<rceil>)"
    using x by (simp add: l)
next
  fix x :: real
  assume a: "\<not> 2 \<le> x" and b: "0 < x \<and> x < 1"
  then have l: "log 2 (2 * x) = 1 + log 2 x" by (simp add: log_mult)
  have neg: "log 2 x < 0" using b by simp
  show "(2 * x, x) \<in> measure (\<lambda>x. if 1 \<le> x then nat \<lfloor>log 2 x\<rfloor> else nat \<lceil>- log 2 x\<rceil>)"
  proof (cases "1 \<le> 2 * x")
    case True
    then have "2 * x < 2" using b by simp
    then have "log 2 (2 * x) < 1" using True by (simp add: log_less_iff)
    moreover have "0 \<le> log 2 (2 * x)" using True by simp
    ultimately have "\<lfloor>log 2 (2 * x)\<rfloor> = 0" by linarith
    moreover have "0 < \<lceil>- log 2 x\<rceil>" using neg by linarith
    ultimately show ?thesis using True b by simp
  next
    case False
    then have "log 2 (2 * x) < 0" using b by simp
    then have "1 < - log 2 x" using l by linarith
    then have "\<lceil>- log 2 (2 * x)\<rceil> < \<lceil>- log 2 x\<rceil>" "0 < \<lceil>- log 2 x\<rceil>"
      unfolding l by linarith+
    then show ?thesis using False b by simp
  qed
qed

declare f64_exponent.simps [simp del]

definition pow2 :: "int \<Rightarrow> real" where
  "pow2 e = (if 0 \<le> e then 2 ^ nat e else 1 / 2 ^ nat (- e))"

definition round_even :: "real \<Rightarrow> int" where
  \<comment> \<open>The nearest integer, the even one of the two when \<open>m\<close> is half way between them.\<close>
  "round_even m =
     (let f = \<lfloor>m\<rfloor>; d = m - of_int f
      in if d < 1 / 2 then f else if 1 / 2 < d then f + 1 else if even f then f else f + 1)"

definition fl :: "real \<Rightarrow> real" where
  \<comment> \<open>The nearest number with a significand of 53 bits.\<close>
  "fl x = (if x = 0 then 0
           else let e = f64_exponent \<bar>x\<bar> - 52
                in of_int (round_even (x / pow2 e)) * pow2 e)"

definition Math_sqrt_f64 :: "real \<Rightarrow> real option" where
  \<comment> \<open>\<^verbatim>\<open>Math.sqrt\<close> is correctly rounded; \<open>None\<close> is NaN.\<close>
  "Math_sqrt_f64 a = (if a < 0 then None else Some (fl (sqrt a)))"

subsection \<open>The circle fit in double precision\<close>

definition determinant3x3_f64 :: "real list list \<Rightarrow> real" where
  "determinant3x3_f64 m =
     fl (fl (fl (m ! 0 ! 0 * fl (fl (m ! 1 ! 1 * m ! 2 ! 2) - fl (m ! 1 ! 2 * m ! 2 ! 1))) -
             fl (m ! 0 ! 1 * fl (fl (m ! 1 ! 0 * m ! 2 ! 2) - fl (m ! 1 ! 2 * m ! 2 ! 0)))) +
         fl (m ! 0 ! 2 * fl (fl (m ! 1 ! 0 * m ! 2 ! 1) - fl (m ! 1 ! 1 * m ! 2 ! 0))))"

definition fitCircle2D_f64 :: "vec2 list \<Rightarrow> Circle2D option" where
  \<comment> \<open>The sums accumulate in the order of the points, as the loop does, from 0. A product
      of three factors is rounded after each multiplication, a sum of three terms after
      each addition, from the left.\<close>
  "fitCircle2D_f64 points =
     (if length points < 3 then None
      else let n = real (length points);
               sumX = fold (\<lambda>(x, y) s. fl (s + x)) points 0;
               sumY = fold (\<lambda>(x, y) s. fl (s + y)) points 0;
               sumX2 = fold (\<lambda>(x, y) s. fl (s + fl (x * x))) points 0;
               sumY2 = fold (\<lambda>(x, y) s. fl (s + fl (y * y))) points 0;
               sumXY = fold (\<lambda>(x, y) s. fl (s + fl (x * y))) points 0;
               sumX3 = fold (\<lambda>(x, y) s. fl (s + fl (fl (x * x) * x))) points 0;
               sumY3 = fold (\<lambda>(x, y) s. fl (s + fl (fl (y * y) * y))) points 0;
               sumX2Y = fold (\<lambda>(x, y) s. fl (s + fl (fl (x * x) * y))) points 0;
               sumXY2 = fold (\<lambda>(x, y) s. fl (s + fl (fl (x * y) * y))) points 0;
               A = [[sumX2, sumXY, sumX],
                    [sumXY, sumY2, sumY],
                    [sumX, sumY, n]];
               B = [fl (fl (sumX3 + sumXY2) / 2),
                    fl (fl (sumX2Y + sumY3) / 2),
                    fl (fl (sumX2 + sumY2) / 2)];
               det = determinant3x3_f64 A
           in if \<bar>det\<bar> < fl (1 / 10 ^ 10) then None
              else let a = fl (determinant3x3_f64 (replaceColumn A B 0) / det);
                       b = fl (determinant3x3_f64 (replaceColumn A B 1) / det);
                       c = fl (determinant3x3_f64 (replaceColumn A B 2) / det)
                   in case Math_sqrt_f64 (fl (fl (c + fl (a * a)) + fl (b * b))) of
                        None \<Rightarrow> None
                      | Some radius \<Rightarrow>
                          if radius \<le> 0 then None
                          else Some \<lparr>c2_center = (a, b), c2_radius = radius\<rparr>)"

subsection \<open>Rim detection in double precision\<close>







definition collinear_points :: "vec2 list" where
  \<comment> \<open>\<^verbatim>\<open>[[10.1, 7.2], [20.3, 7.2], [30.7, 7.2]]\<close>: three points of one horizontal line.\<close>
  "collinear_points =
     [(fl (101 / 10), fl (72 / 10)), (fl (203 / 10), fl (72 / 10)), (fl (307 / 10), fl (72 / 10))]"

section \<open>Theorems: tipover physics\<close>

subsection \<open>The range of the arc tangent of two positive numbers\<close>

lemma Math_atan2_pos_range:
  assumes "0 < x" "0 < y"
  shows "0 < Math_atan2 y x \<and> Math_atan2 y x < pi / 2"
proof -
  have "0 < y / x" using assms by simp
  then have "0 < arctan (y / x)" by (simp add: arctan_less_zero_iff zero_less_arctan_iff)
  moreover have "arctan (y / x) < pi / 2" by (rule arctan_ubound)
  ultimately show ?thesis using assms by (simp add: Math_atan2_def)
qed

text \<open>
  Claim C1. For all centres of mass, base radii and base centres, \<open>criticalTipoverAngle\<close>
  returns \<open>pi / 2\<close> when the vertical offset \<open>v = comY - baseY\<close> is at most 0; otherwise,
  with \<open>h\<close> the horizontal distance and \<open>effectiveRadius = baseRadius - h\<close>, it returns 0
  when \<open>effectiveRadius \<le> 0\<close> and \<open>atan2(effectiveRadius, v)\<close> otherwise.
\<close>

theorem criticalTipoverAngle_branches:
  fixes centerOfMass baseCenter :: Vector3 and baseRadius :: real
  shows
  "(let h = sqrt ((v3_x centerOfMass - v3_x baseCenter)\<^sup>2 + (v3_z centerOfMass - v3_z baseCenter)\<^sup>2);
        v = v3_y centerOfMass - v3_y baseCenter;
        effectiveRadius = baseRadius - h
    in (v \<le> 0 \<longrightarrow> criticalTipoverAngle centerOfMass baseRadius baseCenter = pi / 2) \<and>
       (0 < v \<and> effectiveRadius \<le> 0 \<longrightarrow>
          criticalTipoverAngle centerOfMass baseRadius baseCenter = 0) \<and>
       (0 < v \<and> 0 < effectiveRadius \<longrightarrow>
          criticalTipoverAngle centerOfMass baseRadius baseCenter = Math_atan2 effectiveRadius v))"
  by (simp add: criticalTipoverAngle_def Let_def)

theorem criticalTipoverAngle_branches_witness:
  "criticalTipoverAngle \<lparr>v3_x = 0, v3_y = 0, v3_z = 0\<rparr> 1 \<lparr>v3_x = 0, v3_y = 0, v3_z = 0\<rparr> = pi / 2 \<and>
   criticalTipoverAngle \<lparr>v3_x = 3, v3_y = 1, v3_z = 4\<rparr> 5 \<lparr>v3_x = 0, v3_y = 0, v3_z = 0\<rparr> = 0 \<and>
   criticalTipoverAngle \<lparr>v3_x = 0, v3_y = 1, v3_z = 0\<rparr> 1 \<lparr>v3_x = 0, v3_y = 0, v3_z = 0\<rparr> = pi / 4"
proof -
  have s: "sqrt (25::real) = 5" using real_sqrt_abs [of 5] by simp
  show ?thesis
  using criticalTipoverAngle_branches [of "\<lparr>v3_x = 0, v3_y = 0, v3_z = 0\<rparr>" "\<lparr>v3_x = 0, v3_y = 0, v3_z = 0\<rparr>" 1]
        criticalTipoverAngle_branches [of "\<lparr>v3_x = 3, v3_y = 1, v3_z = 4\<rparr>" "\<lparr>v3_x = 0, v3_y = 0, v3_z = 0\<rparr>" 5]
        criticalTipoverAngle_branches [of "\<lparr>v3_x = 0, v3_y = 1, v3_z = 0\<rparr>" "\<lparr>v3_x = 0, v3_y = 0, v3_z = 0\<rparr>" 1]
  by (simp add: Let_def Math_atan2_def arctan_one s)
qed

text \<open>
  Claim C10. For all centres of mass, base centres and base radii (zero and negative
  radii included) the critical angle lies in the closed interval from 0 to \<open>pi / 2\<close>:
  the two guards return exactly \<open>pi / 2\<close> and 0, and the \<open>atan2\<close> branch is taken only
  with both arguments strictly positive, where its value is strictly between the two.
\<close>

theorem criticalTipoverAngle_range:
  fixes centerOfMass baseCenter :: Vector3 and baseRadius :: real
  shows
  "(let h = sqrt ((v3_x centerOfMass - v3_x baseCenter)\<^sup>2 + (v3_z centerOfMass - v3_z baseCenter)\<^sup>2);
        v = v3_y centerOfMass - v3_y baseCenter;
        angle = criticalTipoverAngle centerOfMass baseRadius baseCenter
    in 0 \<le> angle \<and> angle \<le> pi / 2 \<and>
       (v \<le> 0 \<longrightarrow> angle = pi / 2) \<and>
       (0 < v \<and> baseRadius - h \<le> 0 \<longrightarrow> angle = 0) \<and>
       (\<not> v \<le> 0 \<and> \<not> baseRadius - h \<le> 0 \<longrightarrow>
          angle = Math_atan2 (baseRadius - h) v \<and> 0 < baseRadius - h \<and> 0 < v \<and>
          0 < angle \<and> angle < pi / 2))"
  using Math_atan2_pos_range
  by (auto simp add: criticalTipoverAngle_def Let_def less_imp_le)

theorem criticalTipoverAngle_range_witness:
  "(let angle = criticalTipoverAngle \<lparr>v3_x = 0, v3_y = 1, v3_z = 0\<rparr> 1 \<lparr>v3_x = 0, v3_y = 0, v3_z = 0\<rparr>
    in angle = Math_atan2 1 1 \<and> 0 < angle \<and> angle < pi / 2) \<and>
   criticalTipoverAngle \<lparr>v3_x = 0, v3_y = 1, v3_z = 0\<rparr> (- 1) \<lparr>v3_x = 0, v3_y = 0, v3_z = 0\<rparr> = 0 \<and>
   criticalTipoverAngle \<lparr>v3_x = 0, v3_y = 0, v3_z = 0\<rparr> 0 \<lparr>v3_x = 0, v3_y = 0, v3_z = 0\<rparr> = pi / 2"
  using criticalTipoverAngle_range [of "\<lparr>v3_x = 0, v3_y = 1, v3_z = 0\<rparr>" "\<lparr>v3_x = 0, v3_y = 0, v3_z = 0\<rparr>" 1]
        criticalTipoverAngle_range [of "\<lparr>v3_x = 0, v3_y = 1, v3_z = 0\<rparr>" "\<lparr>v3_x = 0, v3_y = 0, v3_z = 0\<rparr>" "- 1"]
        criticalTipoverAngle_range [of "\<lparr>v3_x = 0, v3_y = 0, v3_z = 0\<rparr>" "\<lparr>v3_x = 0, v3_y = 0, v3_z = 0\<rparr>" 0]
  by (simp add: Let_def)

text \<open>
  Claim C2. \<open>volumePoured\<close> returns 0 when \<open>tiltAngle \<le> 0\<close>; otherwise it returns 0 when
  \<open>liquidHeightAboveRim \<le> 0\<close> and
  \<open>max(0, min(liquidHeightAboveRim, rimDropOnLowSide) * r\<^sup>2 * sin(tilt))\<close> otherwise. In
  particular nothing is poured at tilt 0, for every cylinder and fill level.
\<close>

theorem volumePoured_branches:
  fixes cylinder :: CylinderParams and fillLevel tiltAngle :: real
  shows
  "(let r = cp_radius cylinder;
        liquidHeight = cp_height cylinder * fillLevel;
        rimDropOnLowSide = 2 * r * sin tiltAngle;
        liquidHeightAboveRim =
          liquidHeight * cos tiltAngle - (cp_height cylinder - liquidHeight) * tan tiltAngle
    in (tiltAngle \<le> 0 \<longrightarrow> volumePoured tiltAngle cylinder fillLevel = 0) \<and>
       (0 < tiltAngle \<and> liquidHeightAboveRim \<le> 0 \<longrightarrow>
          volumePoured tiltAngle cylinder fillLevel = 0) \<and>
       (0 < tiltAngle \<and> 0 < liquidHeightAboveRim \<longrightarrow>
          volumePoured tiltAngle cylinder fillLevel =
            max 0 (min liquidHeightAboveRim rimDropOnLowSide * r\<^sup>2 * sin tiltAngle))) \<and>
   volumePoured 0 cylinder fillLevel = 0"
  by (simp add: volumePoured_def Let_def power2_eq_square mult.assoc)

theorem volumePoured_branches_witness:
  "volumePoured (- 1) \<lparr>cp_center = \<lparr>v3_x = 0, v3_y = 0, v3_z = 0\<rparr>, cp_radius = 1, cp_height = 2\<rparr> 1 = 0 \<and>
   volumePoured (pi / 4) \<lparr>cp_center = \<lparr>v3_x = 0, v3_y = 0, v3_z = 0\<rparr>, cp_radius = 1, cp_height = 2\<rparr> 0 = 0 \<and>
   volumePoured (pi / 6) \<lparr>cp_center = \<lparr>v3_x = 0, v3_y = 0, v3_z = 0\<rparr>, cp_radius = 1, cp_height = 2\<rparr> 1 = 1 / 2"
proof -
  let ?c = "\<lparr>cp_center = \<lparr>v3_x = 0, v3_y = 0, v3_z = 0\<rparr>, cp_radius = 1, cp_height = 2\<rparr>"
  have a: "sqrt 3 > 1" by (simp add: real_less_rsqrt)
  show ?thesis
    using volumePoured_branches [where tiltAngle = "- 1" and cylinder = ?c and fillLevel = 1]
          volumePoured_branches [where tiltAngle = "pi / 4" and cylinder = ?c and fillLevel = 0]
          volumePoured_branches [where tiltAngle = "pi / 6" and cylinder = ?c and fillLevel = 1] a
    by (simp add: Let_def tan_45 sin_30 cos_30 tan_30)
qed

text \<open>
  Claim C9. \<open>calculateCenterOfMass\<close> is total: it always returns a finite vector. When
  the total mass \<open>cupMass + liquidVolume * liquidDensity\<close> is 0 the result is the cup
  centroid unchanged, so no quotient has a zero divisor; for a nonzero total mass the
  result is the mass-weighted average of the two centroids, componentwise.
\<close>

theorem calculateCenterOfMass_total:
  fixes cupCentroid liquidCentroid :: Vector3
  shows
  "\<exists>com. calculateCenterOfMass cupMass cupCentroid liquidVolume liquidDensity liquidCentroid = Some com \<and>
     (let liquidMass = liquidVolume * liquidDensity; totalMass = cupMass + liquidMass
      in (totalMass = 0 \<longrightarrow> com = cupCentroid) \<and>
         (totalMass \<noteq> 0 \<longrightarrow>
            com = \<lparr>v3_x = (cupMass * v3_x cupCentroid + liquidMass * v3_x liquidCentroid) / totalMass,
                   v3_y = (cupMass * v3_y cupCentroid + liquidMass * v3_y liquidCentroid) / totalMass,
                   v3_z = (cupMass * v3_z cupCentroid + liquidMass * v3_z liquidCentroid) / totalMass\<rparr>))"
  by (simp add: calculateCenterOfMass_def js_div_def Let_def)

theorem calculateCenterOfMass_total_witness:
  "calculateCenterOfMass 0 \<lparr>v3_x = 1, v3_y = 2, v3_z = 3\<rparr> 0 1000 \<lparr>v3_x = 4, v3_y = 5, v3_z = 6\<rparr>
     = Some \<lparr>v3_x = 1, v3_y = 2, v3_z = 3\<rparr> \<and>
   calculateCenterOfMass 1 \<lparr>v3_x = 1, v3_y = 2, v3_z = 3\<rparr> 1 1 \<lparr>v3_x = 3, v3_y = 4, v3_z = 5\<rparr>
     = Some \<lparr>v3_x = 2, v3_y = 3, v3_z = 4\<rparr>"
  using calculateCenterOfMass_total [of 0 "\<lparr>v3_x = 1, v3_y = 2, v3_z = 3\<rparr>" 0 1000 "\<lparr>v3_x = 4, v3_y = 5, v3_z = 6\<rparr>"]
        calculateCenterOfMass_total [of 1 "\<lparr>v3_x = 1, v3_y = 2, v3_z = 3\<rparr>" 1 1 "\<lparr>v3_x = 3, v3_y = 4, v3_z = 5\<rparr>"]
  by (auto simp add: Let_def)

lemma calculateCenterOfMass_Some:
  "\<exists>com. calculateCenterOfMass cupMass cupCentroid liquidVolume liquidDensity liquidCentroid = Some com"
  by (simp add: calculateCenterOfMass_def js_div_def Let_def)

text \<open>
  Claim C3. \<open>calculatePhysicsState\<close> clamps the fill level to the interval from 0 to 1 and
  the tilt angle to the interval from 0 to \<open>pi / 2\<close> before it computes anything; the state it
  returns is computed from the clamped values, with
  \<open>isStable = (tiltAngle < criticalTipoverAngle)\<close> and
  \<open>stabilityMargin = (criticalTipoverAngle - tiltAngle) * (180 / pi)\<close>, so the margin is
  negative exactly when the clamped tilt exceeds the critical angle.
\<close>

theorem calculatePhysicsState_clamped:
  fixes cylinder :: CylinderParams
  shows
  "\<exists>s. calculatePhysicsState cylinder fillLevel tiltAngle cupMass liquidDensity = Some s \<and>
     ps_fillLevel s = max 0 (min 1 fillLevel) \<and> 0 \<le> ps_fillLevel s \<and> ps_fillLevel s \<le> 1 \<and>
     ps_tiltAngle s = max 0 (min (pi / 2) tiltAngle) \<and> 0 \<le> ps_tiltAngle s \<and> ps_tiltAngle s \<le> pi / 2 \<and>
     ps_liquidVolume s = calculateLiquidVolume cylinder (ps_fillLevel s) \<and>
     calculateCenterOfMass cupMass
        \<lparr>v3_x = v3_x (cp_center cylinder),
         v3_y = v3_y (cp_center cylinder) + cp_height cylinder / 2,
         v3_z = v3_z (cp_center cylinder)\<rparr>
        (ps_liquidVolume s) liquidDensity (calculateLiquidCentroid cylinder (ps_fillLevel s))
       = Some (ps_centerOfMass s) \<and>
     ps_criticalTipoverAngle s =
       criticalTipoverAngle (ps_centerOfMass s) (cp_radius cylinder) (cp_center cylinder) \<and>
     ps_volumePoured s = volumePoured (ps_tiltAngle s) cylinder (ps_fillLevel s) \<and>
     ps_isStable s = (ps_tiltAngle s < ps_criticalTipoverAngle s) \<and>
     ps_stabilityMargin s = (ps_criticalTipoverAngle s - ps_tiltAngle s) * (180 / pi) \<and>
     (ps_stabilityMargin s < 0 \<longleftrightarrow> ps_criticalTipoverAngle s < ps_tiltAngle s)"
proof -
  let ?cc = "\<lparr>v3_x = v3_x (cp_center cylinder),
         v3_y = v3_y (cp_center cylinder) + cp_height cylinder / 2,
         v3_z = v3_z (cp_center cylinder)\<rparr>"
  let ?f = "max 0 (min 1 fillLevel)"
  let ?t = "max 0 (min (pi / 2) tiltAngle)"
  obtain com where com: "calculateCenterOfMass cupMass ?cc (calculateLiquidVolume cylinder ?f)
      liquidDensity (calculateLiquidCentroid cylinder ?f) = Some com"
    using calculateCenterOfMass_Some by blast
  let ?crit = "criticalTipoverAngle com (cp_radius cylinder) (cp_center cylinder)"
  let ?s = "\<lparr>ps_fillLevel = ?f, ps_tiltAngle = ?t, ps_centerOfMass = com,
             ps_criticalTipoverAngle = ?crit,
             ps_liquidVolume = calculateLiquidVolume cylinder ?f,
             ps_volumePoured = volumePoured ?t cylinder ?f,
             ps_isStable = (?t < ?crit),
             ps_stabilityMargin = (?crit - ?t) * (180 / pi)\<rparr>"
  have base: "\<lparr>v3_x = v3_x (cp_center cylinder), v3_y = v3_y (cp_center cylinder),
                v3_z = v3_z (cp_center cylinder)\<rparr> = cp_center cylinder"
    by simp
  have run: "calculatePhysicsState cylinder fillLevel tiltAngle cupMass liquidDensity = Some ?s"
    unfolding calculatePhysicsState_def Let_def base by (simp add: com)
  have "0 < 180 / pi" by simp
  then have sgn: "((?crit - ?t) * (180 / pi) < 0) = (?crit < ?t)"
    by (simp only: mult_less_0_iff) auto
  have tilt: "0 \<le> ?t \<and> ?t \<le> pi / 2"
    using pi_gt_zero by (simp add: max_def min_def)
  have fill: "0 \<le> ?f \<and> ?f \<le> 1" by (simp add: max_def min_def)
  show ?thesis
    apply (rule exI [of _ ?s])
    using run com sgn tilt fill by simp
qed

theorem calculatePhysicsState_clamped_witness:
  "\<exists>s. calculatePhysicsState
          \<lparr>cp_center = \<lparr>v3_x = 0, v3_y = 0, v3_z = 0\<rparr>, cp_radius = 1, cp_height = 2\<rparr> 7 (- 3) 1 0 = Some s \<and>
        ps_fillLevel s = 1 \<and> ps_tiltAngle s = 0 \<and> ps_criticalTipoverAngle s = pi / 4 \<and>
        ps_isStable s \<and> ps_stabilityMargin s = 45"
proof -
  let ?c = "\<lparr>cp_center = \<lparr>v3_x = 0, v3_y = 0, v3_z = 0\<rparr>, cp_radius = 1, cp_height = 2\<rparr>"
  obtain s where s: "calculatePhysicsState ?c 7 (- 3) 1 0 = Some s"
    and f: "ps_fillLevel s = max 0 (min 1 7)" and t: "ps_tiltAngle s = max 0 (min (pi / 2) (- 3))"
    and v: "ps_liquidVolume s = calculateLiquidVolume ?c (ps_fillLevel s)"
    and com: "calculateCenterOfMass 1
        \<lparr>v3_x = v3_x (cp_center ?c), v3_y = v3_y (cp_center ?c) + cp_height ?c / 2, v3_z = v3_z (cp_center ?c)\<rparr>
        (ps_liquidVolume s) 0 (calculateLiquidCentroid ?c (ps_fillLevel s)) = Some (ps_centerOfMass s)"
    and crit: "ps_criticalTipoverAngle s = criticalTipoverAngle (ps_centerOfMass s) (cp_radius ?c) (cp_center ?c)"
    and st: "ps_isStable s = (ps_tiltAngle s < ps_criticalTipoverAngle s)"
    and m: "ps_stabilityMargin s = (ps_criticalTipoverAngle s - ps_tiltAngle s) * (180 / pi)"
    using calculatePhysicsState_clamped [of ?c 7 "- 3" 1 0] by blast
  have t0: "ps_tiltAngle s = 0" using t pi_gt_zero by (simp add: min_def)
  have com': "ps_centerOfMass s = \<lparr>v3_x = 0, v3_y = 1, v3_z = 0\<rparr>"
    using com by (simp add: calculateCenterOfMass_def js_div_def Let_def)
  have c4: "ps_criticalTipoverAngle s = pi / 4"
    unfolding crit com' by (simp add: criticalTipoverAngle_def Math_atan2_def arctan_one)
  have st': "ps_isStable s" unfolding st t0 c4 by simp
  have m': "ps_stabilityMargin s = 45" unfolding m t0 c4 by simp
  show ?thesis
    using s f t0 c4 st' m' by simp
qed

section \<open>Theorems: the algebraic circle fit\<close>

subsection \<open>The source computes the scalar formulas\<close>

lemma replaceColumn_3x3:
  "replaceColumn [[a11, a12, a13], [a21, a22, a23], [a31, a32, a33]] [b1, b2, b3] 0
     = [[b1, a12, a13], [b2, a22, a23], [b3, a32, a33]]"
  "replaceColumn [[a11, a12, a13], [a21, a22, a23], [a31, a32, a33]] [b1, b2, b3] 1
     = [[a11, b1, a13], [a21, b2, a23], [a31, b3, a33]]"
  "replaceColumn [[a11, a12, a13], [a21, a22, a23], [a31, a32, a33]] [b1, b2, b3] 2
     = [[a11, a12, b1], [a21, a22, b2], [a31, a32, b3]]"
  by (simp_all add: replaceColumn_def)

lemma determinant3x3_rows:
  "determinant3x3 [[a11, a12, a13], [a21, a22, a23], [a31, a32, a33]]
     = det3 a11 a12 a13 a21 a22 a23 a31 a32 a33"
  by (simp add: determinant3x3_def det3_def)

lemma moment_sums:
  "sum_list (map (\<lambda>(x, y). x) ps) = moment 1 0 ps"
  "sum_list (map (\<lambda>(x, y). y) ps) = moment 0 1 ps"
  "sum_list (map (\<lambda>(x, y). x * x) ps) = moment 2 0 ps"
  "sum_list (map (\<lambda>(x, y). y * y) ps) = moment 0 2 ps"
  "sum_list (map (\<lambda>(x, y). x * y) ps) = moment 1 1 ps"
  "sum_list (map (\<lambda>(x, y). x * x * x) ps) = moment 3 0 ps"
  "sum_list (map (\<lambda>(x, y). y * y * y) ps) = moment 0 3 ps"
  "sum_list (map (\<lambda>(x, y). x * x * y) ps) = moment 2 1 ps"
  "sum_list (map (\<lambda>(x, y). x * y * y) ps) = moment 1 2 ps"
  by (simp_all add: moment_def power2_eq_square power3_eq_cube mult.assoc)

lemma fitCircle2D_spec:
  "fitCircle2D ps =
     (if length ps < 3 then None
      else if \<bar>spec_det ps\<bar> < 1 / 10 ^ 10 then None
      else case Math_sqrt (spec_radicand ps) of
             None \<Rightarrow> None
           | Some radius \<Rightarrow>
               if radius \<le> 0 then None
               else Some \<lparr>c2_center = (spec_a ps, spec_b ps), c2_radius = radius\<rparr>)"
  unfolding fitCircle2D_def Let_def moment_sums replaceColumn_3x3 determinant3x3_rows
    spec_det_def spec_a_def spec_b_def spec_c_def spec_radicand_def power2_eq_square
  by (rule refl)

lemma spec_det_collinear:
  assumes "collinear3 p q r"
  shows "spec_det [p, q, r] = 0"
proof -
  obtain x1 y1 x2 y2 x3 y3 where [simp]: "p = (x1, y1)" "q = (x2, y2)" "r = (x3, y3)"
    by (metis surj_pair)
  have "spec_det [p, q, r] = ((x2 - x1) * (y3 - y1) - (x3 - x1) * (y2 - y1))\<^sup>2"
    by (simp add: spec_det_def det3_def moment_def power2_eq_square algebra_simps)
  also have "\<dots> = 0" using assms by (simp add: collinear3_def)
  finally show ?thesis .
qed

section \<open>Theorems: rim detection\<close>

lemma scanFromTop_Some:
  assumes "i < n" "threshold < real (d_count (ds ! i))"
    and "\<forall>j. i < j \<and> j < n \<longrightarrow> \<not> threshold < real (d_count (ds ! j))"
  shows "scanFromTop ds threshold n = Some (d_height (ds ! i))"
  using assms
proof (induction n)
  case 0
  then show ?case by simp
next
  case (Suc n)
  show ?case
  proof (cases "i = n")
    case True
    then show ?thesis using Suc.prems by simp
  next
    case False
    then have "i < n" using Suc.prems by simp
    moreover have "\<not> threshold < real (d_count (ds ! n))" using Suc.prems \<open>i < n\<close> by simp
    ultimately show ?thesis using Suc by simp
  qed
qed

lemma scanFromTop_None:
  assumes "\<forall>j < n. \<not> threshold < real (d_count (ds ! j))"
  shows "scanFromTop ds threshold n = None"
  using assms by (induction n) simp_all

lemma sliceAtHeight_length:
  "length (sliceAtHeight positions h th) = length (filter (\<lambda>(x, y, z). \<bar>y - h\<bar> < th / 2) positions)"
  by (simp add: sliceAtHeight_def)

lemma findRimHeight_20:
  "findRimHeight positions minY maxY 20 =
     (case scanFromTop
             (map (\<lambda>i. \<lparr>d_height = spec_bandCenter minY maxY i,
                         d_count = spec_bandCount positions minY maxY i\<rparr>) [0..<20])
             (spec_rimThreshold positions minY maxY) 20 of
        Some height \<Rightarrow> height | None \<Rightarrow> maxY)"
proof -
  let ?ds = "map (\<lambda>i. \<lparr>d_height = spec_bandCenter minY maxY i,
                         d_count = spec_bandCount positions minY maxY i\<rparr>) [0..<20]"
  have th: "real (20::nat) = 20" by simp
  have ds: "map (\<lambda>i. \<lparr>d_height = minY + (real i + 1 / 2) * ((maxY - minY) / 20),
                        d_count = length (sliceAtHeight positions
                          (minY + (real i + 1 / 2) * ((maxY - minY) / 20))
                          ((maxY - minY) / 20))\<rparr>) [0..<20] = ?ds"
    unfolding sliceAtHeight_length spec_bandCenter_def spec_bandCount_def by (rule refl)
  have ne: "(?ds = []) = False" by (simp del: upt_rec_numeral)
  have mx: "real (Max (set (map d_count ?ds))) * (3 / 10) = spec_rimThreshold positions minY maxY"
    by (simp add: spec_rimThreshold_def image_image lessThan_atLeast0 del: upt_rec_numeral)
  show ?thesis
    unfolding findRimHeight_def Let_def th ds ne mx
    by (simp only: if_False length_map length_upt) simp
qed

lemma spec_bandCount_le: "spec_bandCount positions minY maxY i \<le> length positions"
  by (simp add: spec_bandCount_def)

lemma spec_bandCount_Max_le:
  "Max (spec_bandCount positions minY maxY ` {..<20}) \<le> length positions"
proof -
  have "(0::nat) \<in> {..<20}" by simp
  then have "spec_bandCount positions minY maxY ` {..<20} \<noteq> {}" by blast
  then show ?thesis by (subst Max_le_iff) (auto simp add: spec_bandCount_le)
qed

lemma findRimHeight_band:
  assumes "i < 20"
    and "spec_rimThreshold positions minY maxY < real (spec_bandCount positions minY maxY i)"
    and "\<forall>j. i < j \<and> j < 20 \<longrightarrow>
           \<not> spec_rimThreshold positions minY maxY < real (spec_bandCount positions minY maxY j)"
  shows "findRimHeight positions minY maxY 20 = spec_bandCenter minY maxY i"
proof -
  let ?ds = "map (\<lambda>i. \<lparr>d_height = spec_bandCenter minY maxY i,
                         d_count = spec_bandCount positions minY maxY i\<rparr>) [0..<20]"
  let ?thr = "spec_rimThreshold positions minY maxY"
  have nth: "\<And>j. j < 20 \<Longrightarrow> ?ds ! j = \<lparr>d_height = spec_bandCenter minY maxY j,
                         d_count = spec_bandCount positions minY maxY j\<rparr>"
    by (simp del: upt_rec_numeral)
  have "scanFromTop ?ds ?thr 20 = Some (d_height (?ds ! i))"
  proof (rule scanFromTop_Some [OF assms(1)])
    show "?thr < real (d_count (?ds ! i))" using assms(1,2) by (simp only: nth) simp
    show "\<forall>j. i < j \<and> j < 20 \<longrightarrow> \<not> ?thr < real (d_count (?ds ! j))"
      using assms(3) by (auto simp only: nth) simp
  qed
  then show ?thesis using assms(1) by (simp only: findRimHeight_20 nth) simp
qed

lemma findRimHeight_no_band:
  assumes "\<forall>i<20. \<not> spec_rimThreshold positions minY maxY
                      < real (spec_bandCount positions minY maxY i)"
  shows "findRimHeight positions minY maxY 20 = maxY"
proof -
  let ?ds = "map (\<lambda>i. \<lparr>d_height = spec_bandCenter minY maxY i,
                         d_count = spec_bandCount positions minY maxY i\<rparr>) [0..<20]"
  let ?thr = "spec_rimThreshold positions minY maxY"
  have nth: "\<And>j. j < 20 \<Longrightarrow> ?ds ! j = \<lparr>d_height = spec_bandCenter minY maxY j,
                         d_count = spec_bandCount positions minY maxY j\<rparr>"
    by (simp del: upt_rec_numeral)
  have "scanFromTop ?ds ?thr 20 = None"
  proof (rule scanFromTop_None, intro allI impI)
    fix j :: nat assume "j < 20"
    then show "\<not> ?thr < real (d_count (?ds ! j))" using assms by (simp only: nth) simp
  qed
  then show ?thesis by (simp only: findRimHeight_20) simp
qed

section \<open>Theorems: every fitted radius and height is positive\<close>

lemma fitCircle2D_radius_pos: "fitCircle2D ps = Some c \<Longrightarrow> 0 < c2_radius c"
  by (auto simp add: fitCircle2D_spec split: if_splits option.splits)

lemma ransacLoop_radius_pos:
  assumes "ransacLoop points threshold k best bestInliers t = Some ((best', bestInliers'), t')"
    and "\<forall>c. best = Some c \<longrightarrow> 0 < c2_radius c"
  shows "\<forall>c. best' = Some c \<longrightarrow> 0 < c2_radius c"
  using assms
proof (induction k arbitrary: best bestInliers t)
  case 0
  then show ?case by simp
next
  case (Suc k)
  from Suc.prems(1) obtain indices t1 where
    s: "sampleIndices (length points) [] t = Some (indices, t1)"
    by (auto split: option.splits)
  show ?case
  proof (cases "fitCircle2D (map (\<lambda>i. points ! i) indices)")
    case None
    then have "ransacLoop points threshold k best bestInliers t1 = Some ((best', bestInliers'), t')"
      using Suc.prems(1) s by simp
    then show ?thesis using Suc.IH Suc.prems(2) by blast
  next
    case (Some circle)
    then have pos: "0 < c2_radius circle" by (rule fitCircle2D_radius_pos)
    let ?n = "length (filter (isInlier circle threshold) points)"
    show ?thesis
    proof (cases "?n > bestInliers")
      case True
      then have "ransacLoop points threshold k (Some circle) ?n t1 = Some ((best', bestInliers'), t')"
        using Suc.prems(1) s Some by (simp add: Let_def)
      moreover have "\<forall>c. Some circle = Some c \<longrightarrow> 0 < c2_radius c" using pos by simp
      ultimately show ?thesis using Suc.IH by blast
    next
      case False
      then have "ransacLoop points threshold k best bestInliers t1 = Some ((best', bestInliers'), t')"
        using Suc.prems(1) s Some by (simp add: Let_def)
      then show ?thesis using Suc.IH Suc.prems(2) by blast
    qed
  qed
qed

lemma refitInliers_radius_pos:
  assumes "refitInliers points threshold best = Some c"
    and "\<forall>c. best = Some c \<longrightarrow> 0 < c2_radius c"
  shows "0 < c2_radius c"
  using assms
  by (auto simp add: refitInliers_def Let_def fitCircle2D_radius_pos
      split: option.splits if_splits)

lemma fitCircleRANSAC_radius_pos:
  assumes "fitCircleRANSAC points iterations threshold t = Some (Some c, t')"
  shows "0 < c2_radius c"
proof -
  from assms obtain best bi where
    loop: "ransacLoop points threshold iterations None 0 t = Some ((best, bi), t')"
    and refit: "refitInliers points threshold best = Some c"
    by (auto simp add: fitCircleRANSAC_def split: if_splits option.splits)
  have "\<forall>c. best = Some c \<longrightarrow> 0 < c2_radius c"
    using ransacLoop_radius_pos [OF loop] by simp
  then show ?thesis using refit refitInliers_radius_pos by blast
qed

lemma fitCylinder_Some:
  assumes "fitCylinder positions axis t = Some (Some cyl, t')"
  shows "\<exists>circle. fitCircleRANSAC (map (\<lambda>(x, y, z). (x, z)) positions) 200 (5 / 100) t
                     = Some (Some circle, t') \<and>
           10 \<le> length positions \<and>
           cf_radius cyl = c2_radius circle \<and>
           cf_center cyl = (fst (c2_center circle),
                            Min (set (map (\<lambda>(x, y, z). y) positions)),
                            snd (c2_center circle)) \<and>
           cf_height cyl = Max (set (map (\<lambda>(x, y, z). y) positions))
                             - Min (set (map (\<lambda>(x, y, z). y) positions)) \<and>
           0 < cf_height cyl \<and> cf_axis cyl = axis"
  using assms
  by (auto simp add: fitCylinder_def Let_def split: if_splits option.splits)

lemma fitCylinder_positive:
  assumes "fitCylinder positions axis t = Some (Some cyl, t')"
  shows "0 < cf_radius cyl \<and> 0 < cf_height cyl"
  using fitCylinder_Some [OF assms] fitCircleRANSAC_radius_pos by auto

lemma detectVolume_positive:
  assumes "detectVolume ply t = Some (Some res, t')"
  shows "0 < cf_radius (vd_cylinder res) \<and> 0 < cf_height (vd_cylinder res)"
proof -
  let ?positions = "getPositions ply"
  let ?minY = "fst (snd (b_min (ply_bounds ply)))"
  let ?maxY = "fst (snd (b_max (ply_bounds ply)))"
  let ?rimHeight = "findRimHeight ?positions ?minY ?maxY 20"
  let ?rimPoints = "sliceAtHeight ?positions ?rimHeight ((?maxY - ?minY) * (1 / 10))"
  from assms have len: "\<not> length ?positions < 100"
    by (auto simp add: detectVolume_def Let_def split: if_splits)
  from assms len obtain r t1 where rim: "fitCircleRANSAC ?rimPoints 200 (5 / 100) t = Some (r, t1)"
    by (auto simp add: detectVolume_def Let_def split: prod.splits option.splits)
  show ?thesis
  proof (cases r)
    case None
    with assms len rim obtain cyl where
      c: "fitCylinder ?positions (Some (0, 1, 0)) t1 = Some (Some cyl, t')"
      and "vd_cylinder res = cyl"
      by (auto simp add: detectVolume_def Let_def split: prod.splits option.splits)
    then show ?thesis using fitCylinder_positive by blast
  next
    case (Some rimCircle)
    then have pos: "0 < c2_radius rimCircle" using rim fitCircleRANSAC_radius_pos by blast
    from assms len rim Some have
      "cf_radius (vd_cylinder res) = c2_radius rimCircle * (85 / 100)"
      "cf_height (vd_cylinder res) = max (1 / 100) (?rimHeight - ?minY)"
      by (auto simp add: detectVolume_def Let_def split: prod.splits)
    then show ?thesis using pos by simp
  qed
qed

section \<open>Runs on the example inputs\<close>

lemma sampleIndices_full:
  "3 \<le> length indices \<Longrightarrow> sampleIndices n indices t = Some (indices, t)"
  by (cases t) simp_all

lemma sampleIndices_three:
  assumes "i < n" "j < n" "l < n" "i \<noteq> j" "i \<noteq> l" "j \<noteq> l"
  shows "sampleIndices n [] (i # j # l # rest) = Some ([i, j, l], rest)"
  using assms by (simp add: sampleIndices_full)

lemma ransacLoop_skip:
  assumes "i < length points" "j < length points" "l < length points"
    and "i \<noteq> j" "i \<noteq> l" "j \<noteq> l"
    and "fitCircle2D [points ! i, points ! j, points ! l] = None"
  shows "ransacLoop points threshold k best bestInliers (concat (replicate k [i, j, l]) @ rest)
           = Some ((best, bestInliers), rest)"
proof (induction k)
  case 0
  show ?case by simp
next
  case (Suc k)
  have "sampleIndices (length points) [] (i # j # l # concat (replicate k [i, j, l]) @ rest)
          = Some ([i, j, l], concat (replicate k [i, j, l]) @ rest)"
    using assms(1-6) by (rule sampleIndices_three)
  then show ?case using Suc assms(7) by simp
qed

lemma ransacLoop_improve:
  assumes "sampleIndices (length points) [] t = Some (idx, t1)"
    and "fitCircle2D (map (\<lambda>i. points ! i) idx) = Some circle"
    and "bestInliers < length (filter (isInlier circle threshold) points)"
  shows "ransacLoop points threshold (Suc k) best bestInliers t
           = ransacLoop points threshold k (Some circle)
               (length (filter (isInlier circle threshold) points)) t1"
  using assms by (simp add: Let_def)

lemma fitCircle2D_ring2d: "fitCircle2D (ring2d m) = Some unit_circle"
proof -
  have mom: "moment 1 0 (ring2d m) = 4" "moment 0 1 (ring2d m) = 0" "moment 2 0 (ring2d m) = 6"
    "moment 0 2 (ring2d m) = 2" "moment 1 1 (ring2d m) = 0" "moment 3 0 (ring2d m) = 10"
    "moment 0 3 (ring2d m) = 0" "moment 2 1 (ring2d m) = 0" "moment 1 2 (ring2d m) = 2"
    by (simp_all add: moment_def ring2d_def sum_list_replicate)
  have len: "length (ring2d m) = 3 + m" by (simp add: ring2d_def)
  have d: "spec_det (ring2d m) = 4 + 12 * real m"
    unfolding spec_det_def mom len det3_def by simp
  have dpos: "spec_det (ring2d m) \<noteq> 0" "\<not> \<bar>spec_det (ring2d m)\<bar> < 1 / 10 ^ 10"
    unfolding d using of_nat_0_le_iff [of m, where ?'a = real] by simp_all
  have "det3 ((10 + 2) / 2) 0 4 ((0 + 0) / 2) 2 0 ((6 + 2) / 2) 0 (real (3 + m)) = spec_det (ring2d m)"
    unfolding spec_det_def mom len det3_def by simp
  then have a: "spec_a (ring2d m) = 1"
    unfolding spec_a_def mom len using dpos(1) by simp
  have b: "spec_b (ring2d m) = 0"
    unfolding spec_b_def mom len det3_def by simp
  have c: "spec_c (ring2d m) = 0"
    unfolding spec_c_def mom len det3_def by simp
  have r: "Math_sqrt (spec_radicand (ring2d m)) = Some 1"
    by (simp add: spec_radicand_def a b c Math_sqrt_def)
  show ?thesis
    using dpos(2) by (simp add: fitCircle2D_spec r a b len unit_circle_def)
qed

lemma ring2d_nth:
  "ring2d m ! 0 = (2, 0)" "ring2d m ! 1 = (1, 1)" "ring2d m ! 2 = (1, - 1)"
  "k < m \<Longrightarrow> ring2d m ! (3 + k) = (0, 0)"
  by (simp_all add: ring2d_def nth_append)

lemma ring2d_inliers:
  "0 < threshold \<Longrightarrow> filter (isInlier unit_circle threshold) (ring2d m) = ring2d m"
  by (simp add: ring2d_def isInlier_def unit_circle_def)

lemma fitCircle2D_same3: "fitCircle2D [p, p, p] = None"
proof -
  have "collinear3 p p p" by (simp add: collinear3_def)
  then have "spec_det [p, p, p] = 0" by (rule spec_det_collinear)
  then show ?thesis by (simp add: fitCircle2D_spec)
qed

lemma fitCircleRANSAC_ring2d:
  assumes "3 \<le> m" "0 < threshold"
  shows "fitCircleRANSAC (ring2d m) 200 threshold (ring_tape @ rest) = Some (Some unit_circle, rest)"
proof -
  let ?skip = "concat (replicate 199 [3, 4, 5]) @ rest"
  have len: "length (ring2d m) = 3 + m" by (simp add: ring2d_def)
  have s: "sampleIndices (length (ring2d m)) [] (ring_tape @ rest) = Some ([0, 1, 2], ?skip)"
    unfolding ring_tape_def using sampleIndices_three [of 0 "3 + m" 1 2 ?skip]
    by (simp add: len)
  have "ring2d 0 = map (\<lambda>i. ring2d m ! i) [0, 1, 2]"
    by (simp add: ring2d_nth) (simp add: ring2d_def)
  then have f: "fitCircle2D (map (\<lambda>i. ring2d m ! i) [0, 1, 2]) = Some unit_circle"
    using fitCircle2D_ring2d [of 0] by simp
  have nth3: "ring2d m ! 3 = (0, 0)" "ring2d m ! 4 = (0, 0)" "ring2d m ! 5 = (0, 0)"
    using ring2d_nth(4) [of 0 m] ring2d_nth(4) [of 1 m] ring2d_nth(4) [of 2 m] assms(1)
    by simp_all
  have skip: "ransacLoop (ring2d m) threshold 199 (Some unit_circle) (3 + m) ?skip
                = Some ((Some unit_circle, 3 + m), rest)"
    using assms(1) by (intro ransacLoop_skip) (simp_all add: len nth3 fitCircle2D_same3)
  have "ransacLoop (ring2d m) threshold (Suc 199) None 0 (ring_tape @ rest)
          = ransacLoop (ring2d m) threshold 199 (Some unit_circle)
              (length (filter (isInlier unit_circle threshold) (ring2d m))) ?skip"
    by (rule ransacLoop_improve [OF s f]) (simp add: ring2d_inliers assms(2) len)
  then have loop: "ransacLoop (ring2d m) threshold 200 None 0 (ring_tape @ rest)
          = Some ((Some unit_circle, 3 + m), rest)"
    using skip by (simp add: ring2d_inliers assms(2) len)
  have refit: "refitInliers (ring2d m) threshold (Some unit_circle) = Some unit_circle"
    by (simp add: refitInliers_def ring2d_inliers assms(2) len fitCircle2D_ring2d)
  show ?thesis
    by (simp add: fitCircleRANSAC_def len loop refit)
qed

lemma ransacLoop_fail:
  assumes "sampleIndices (length points) [] t = Some (idx, t1)"
    and "fitCircle2D (map (\<lambda>i. points ! i) idx) = None"
  shows "ransacLoop points threshold (Suc k) best bestInliers t
           = ransacLoop points threshold k best bestInliers t1"
  using assms by simp

lemma replicate_95_2: "replicate 95 x @ [x, x] = replicate 97 x"
proof -
  have "replicate 97 x = replicate (95 + 2) x" by simp
  also have "\<dots> = replicate 95 x @ replicate 2 x" by (simp only: replicate_add)
  also have "replicate 2 x = [x, x]" by (simp add: numeral_2_eq_2)
  finally show ?thesis by simp
qed

lemma replicate_95_1: "replicate 95 x @ [x] = replicate 96 x"
proof -
  have "replicate 96 x = replicate (95 + 1) x" by simp
  also have "\<dots> = replicate 95 x @ replicate 1 x" by (simp only: replicate_add)
  finally show ?thesis by simp
qed

lemma ring3d_projected: "map (\<lambda>(x, y, z). (x, z)) (ring3d yr lo hi) = ring2d 97"
  by (simp add: ring3d_def ring2d_def replicate_95_2)

lemma ring3d_length: "length (ring3d yr lo hi) = 100"
  by (simp add: ring3d_def)

lemma ring3d_heights:
  assumes "lo \<le> yr" "yr \<le> hi"
  shows "Min (set (map (\<lambda>(x, y, z). y) (ring3d yr lo hi))) = lo"
    and "Max (set (map (\<lambda>(x, y, z). y) (ring3d yr lo hi))) = hi"
  using assms by (simp_all add: ring3d_def min_def max_def)

lemma ring3d_totalError:
  "sum_list (map (\<lambda>(x, y, z).
      \<bar>sqrt ((x - fst (c2_center unit_circle))\<^sup>2 + (z - snd (c2_center unit_circle))\<^sup>2)
         - c2_radius unit_circle\<bar>) (ring3d yr lo hi)) = 0"
  by (simp add: ring3d_def unit_circle_def sum_list_replicate)

lemma fitCylinder_ring3d:
  assumes "lo \<le> yr" "yr \<le> hi" "lo < hi"
  shows "fitCylinder (ring3d yr lo hi) axis (ring_tape @ rest)
           = Some (Some \<lparr>cf_center = (1, lo, 0), cf_radius = 1, cf_height = hi - lo,
                          cf_axis = axis, cf_confidence = 1\<rparr>, rest)"
proof -
  have r: "fitCircleRANSAC (ring2d 97) 200 (5 / 100) (ring_tape @ rest) = Some (Some unit_circle, rest)"
    by (rule fitCircleRANSAC_ring2d) simp_all
  show ?thesis
    unfolding fitCylinder_def Let_def ring3d_projected ring3d_length r
      ring3d_heights [OF assms(1,2)]
    using assms(3) by (simp add: ring3d_totalError) (simp add: unit_circle_def)
qed

lemma fitCircleRANSAC_ring3d_dropX:
  assumes "0 < threshold"
  shows "fitCircleRANSAC (map (spec_dropAxisCoordinate AxisX) (ring3d yr lo hi)) 200 threshold (ring_tape @ rest)
           = Some (None, rest)"
proof -
  let ?ps = "map (spec_dropAxisCoordinate AxisX) (ring3d yr lo hi)"
  let ?skip = "concat (replicate 199 [3, 4, 5]) @ rest"
  have len: "length ?ps = 100" by (simp add: ring3d_def)
  have nth: "?ps ! 0 = (yr, 0)" "?ps ! 1 = (yr, 1)" "?ps ! 2 = (yr, - 1)"
    "?ps ! 3 = (yr, 0)" "?ps ! 4 = (yr, 0)" "?ps ! 5 = (yr, 0)"
    by (simp_all add: ring3d_def nth_append)
  have s: "sampleIndices (length ?ps) [] (ring_tape @ rest) = Some ([0, 1, 2], ?skip)"
    unfolding ring_tape_def len using sampleIndices_three [of 0 100 1 2 ?skip] by simp
  have "collinear3 (yr, 0) (yr, 1) (yr, - 1)" by (simp add: collinear3_def)
  then have "spec_det [(yr, 0), (yr, 1), (yr, - 1)] = 0" by (rule spec_det_collinear)
  then have "fitCircle2D [(yr, 0), (yr, 1), (yr, - 1)] = None" by (simp add: fitCircle2D_spec)
  then have f: "fitCircle2D (map (\<lambda>i. ?ps ! i) [0, 1, 2]) = None"
    by (simp only: list.map nth)
  have skip: "ransacLoop ?ps threshold 199 None 0 ?skip = Some ((None, 0), rest)"
  proof (rule ransacLoop_skip)
    show "3 < length ?ps" "4 < length ?ps" "5 < length ?ps" unfolding len by simp_all
    show "(3::nat) \<noteq> 4" "(3::nat) \<noteq> 5" "(4::nat) \<noteq> 5" by simp_all
    show "fitCircle2D [?ps ! 3, ?ps ! 4, ?ps ! 5] = None"
      unfolding nth by (rule fitCircle2D_same3)
  qed
  have "ransacLoop ?ps threshold (Suc 199) None 0 (ring_tape @ rest)
          = ransacLoop ?ps threshold 199 None 0 ?skip"
    by (rule ransacLoop_fail [OF s f])
  then have loop: "ransacLoop ?ps threshold 200 None 0 (ring_tape @ rest) = Some ((None, 0), rest)"
    using skip by simp
  show ?thesis
    unfolding fitCircleRANSAC_def len loop by (simp add: refitInliers_def)
qed

lemma ring_ply_fields:
  "getPositions (ring_ply yr lo hi) = ring3d yr lo hi"
  "fst (snd (b_min (ply_bounds (ring_ply yr lo hi)))) = lo"
  "fst (snd (b_max (ply_bounds (ring_ply yr lo hi)))) = hi"
  by (simp_all add: ring_ply_def getPositions_def comp_def)

lemma rimY_center: "spec_bandCenter lo hi 19 = rimY lo hi"
  by (simp add: spec_bandCenter_def rimY_def)

lemma rimY_top:
  assumes "lo < hi"
  shows "\<bar>hi - rimY lo hi\<bar> = (hi - lo) / 40"
proof -
  have "hi - rimY lo hi = (hi - lo) / 40" unfolding rimY_def by argo
  then show ?thesis using assms by simp
qed

lemma ring_count19:
  assumes "lo < hi"
  shows "spec_bandCount (ring3d (rimY lo hi) lo hi) lo hi 19 = 98"
proof -
  have a: "\<bar>rimY lo hi - rimY lo hi\<bar> < (hi - lo) / 20 / 2" using assms by simp
  have b: "\<not> \<bar>lo - rimY lo hi\<bar> < (hi - lo) / 20 / 2" using assms by (simp add: rimY_def)
  have c: "\<not> \<bar>hi - rimY lo hi\<bar> < (hi - lo) / 20 / 2"
    unfolding rimY_top [OF assms] by simp
  show ?thesis
    unfolding spec_bandCount_def rimY_center ring3d_def
    by (simp only: filter_append filter.simps filter_replicate split_conv a b c if_True if_False
          length_append list.size length_replicate)
qed

lemma findRimHeight_ring:
  assumes "lo < hi"
  shows "findRimHeight (ring3d (rimY lo hi) lo hi) lo hi 20 = rimY lo hi"
proof -
  let ?ps = "ring3d (rimY lo hi) lo hi"
  have "Max (spec_bandCount ?ps lo hi ` {..<20}) \<le> 100"
    using spec_bandCount_Max_le [of ?ps lo hi] by (simp add: ring3d_length)
  then have thr: "spec_rimThreshold ?ps lo hi \<le> 30" by (simp add: spec_rimThreshold_def)
  have top: "spec_rimThreshold ?ps lo hi < real (spec_bandCount ?ps lo hi 19)"
    using thr by (simp add: ring_count19 [OF assms])
  have vac: "\<forall>j. 19 < j \<and> j < 20 \<longrightarrow>
      \<not> spec_rimThreshold ?ps lo hi < real (spec_bandCount ?ps lo hi j)"
    by auto
  have "findRimHeight ?ps lo hi 20 = spec_bandCenter lo hi 19"
    by (rule findRimHeight_band [OF _ top vac]) simp
  then show ?thesis by (simp only: rimY_center)
qed

lemma rimPoints_ring:
  assumes "lo < hi"
  shows "sliceAtHeight (ring3d (rimY lo hi) lo hi) (rimY lo hi) ((hi - lo) * (1 / 10)) = ring2d 96"
proof -
  have a: "\<bar>rimY lo hi - rimY lo hi\<bar> < (hi - lo) * (1 / 10) / 2" using assms by simp
  have b: "\<not> \<bar>lo - rimY lo hi\<bar> < (hi - lo) * (1 / 10) / 2" using assms by (simp add: rimY_def)
  have c: "\<bar>hi - rimY lo hi\<bar> < (hi - lo) * (1 / 10) / 2"
    unfolding rimY_top [OF assms] using assms by simp
  have "filter (\<lambda>(x, y, z). \<bar>y - rimY lo hi\<bar> < (hi - lo) * (1 / 10) / 2) (ring3d (rimY lo hi) lo hi)
      = [(2, rimY lo hi, 0), (1, rimY lo hi, 1), (1, rimY lo hi, - 1)]
          @ replicate 95 (0, rimY lo hi, 0) @ [(0, hi, 0)]"
    unfolding ring3d_def
    by (simp only: filter_append filter.simps filter_replicate split_conv a b c if_True if_False)
  then show ?thesis
    unfolding sliceAtHeight_def by (simp add: ring2d_def replicate_95_1)
qed

lemma detectVolume_ring:
  assumes "lo < hi"
  shows "detectVolume (ring_ply (rimY lo hi) lo hi) (ring_tape @ rest)
           = Some (Some \<lparr>vd_cylinder =
                           \<lparr>cf_center = (1, lo, 0), cf_radius = 85 / 100,
                            cf_height = max (1 / 100) (rimY lo hi - lo),
                            cf_axis = fst (detectOrientation (ring3d (rimY lo hi) lo hi)),
                            cf_confidence = 8 / 10\<rparr>,
                         vd_rimHeight = rimY lo hi,
                         vd_baseHeight = lo,
                         vd_interiorVolume = max 0 (pi * (85 / 100)\<^sup>2 * (rimY lo hi - lo)),
                         vd_orientation = snd (detectOrientation (ring3d (rimY lo hi) lo hi))\<rparr>,
                   rest)"
proof -
  have r: "fitCircleRANSAC (ring2d 96) 200 (5 / 100) (ring_tape @ rest) = Some (Some unit_circle, rest)"
    by (rule fitCircleRANSAC_ring2d) simp_all
  show ?thesis
    unfolding detectVolume_def Let_def ring_ply_fields ring3d_length
      findRimHeight_ring [OF assms] rimPoints_ring [OF assms] r
    by (simp add: unit_circle_def split: prod.split)
qed

lemma band_boundaries:
  fixes i :: nat
  shows "\<not> \<bar>10 - (0 + (real i + 1 / 2) * ((20 - 0) / 20))\<bar> < (20 - 0) / 20 / 2"
    and "\<not> \<bar>0 - (0 + (real i + 1 / 2) * ((20 - 0) / 20))\<bar> < (20 - 0) / 20 / 2"
    and "\<not> \<bar>20 - (0 + (real i + 1 / 2) * ((20 - 0) / 20))\<bar> < (20 - 0) / 20 / 2"
proof -
  have "i \<le> 9 \<or> 10 \<le> i" by arith
  then have "real i \<le> 9 \<or> 10 \<le> real i" by auto
  then show "\<not> \<bar>10 - (0 + (real i + 1 / 2) * ((20 - 0) / 20))\<bar> < (20 - 0) / 20 / 2"
    by auto
  show "\<not> \<bar>0 - (0 + (real i + 1 / 2) * ((20 - 0) / 20))\<bar> < (20 - 0) / 20 / 2"
    by simp
  have "i \<le> 19 \<or> 20 \<le> i" by arith
  then have "real i \<le> 19 \<or> 20 \<le> real i" by auto
  then show "\<not> \<bar>20 - (0 + (real i + 1 / 2) * ((20 - 0) / 20))\<bar> < (20 - 0) / 20 / 2"
    by auto
qed

lemma ring_mid_count: "spec_bandCount (ring3d 10 0 20) 0 20 i = 0"
  unfolding spec_bandCount_def spec_bandCenter_def ring3d_def
  by (simp only: filter_append filter.simps filter_replicate split_conv band_boundaries
        if_False append_Nil list.size)

lemma findRimHeight_ring_mid: "findRimHeight (ring3d 10 0 20) 0 20 20 = 20"
proof (rule findRimHeight_no_band, intro allI impI)
  fix i :: nat
  have "0 \<le> spec_rimThreshold (ring3d 10 0 20) 0 20" by (simp add: spec_rimThreshold_def)
  then show "\<not> spec_rimThreshold (ring3d 10 0 20) 0 20
               < real (spec_bandCount (ring3d 10 0 20) 0 20 i)"
    by (simp add: ring_mid_count)
qed

lemma rimPoints_ring_mid:
  "sliceAtHeight (ring3d 10 0 20) 20 ((20 - 0) * (1 / 10)) = [(0, 0)]"
  by (simp add: sliceAtHeight_def ring3d_def)

lemma detectVolume_ring_mid:
  "detectVolume (ring_ply 10 0 20) (ring_tape @ rest)
     = Some (Some \<lparr>vd_cylinder =
                     \<lparr>cf_center = (1, 0, 0), cf_radius = 1, cf_height = 20,
                      cf_axis = Some (0, 1, 0), cf_confidence = 1\<rparr>,
                   vd_rimHeight = 20,
                   vd_baseHeight = 0,
                   vd_interiorVolume = pi * 20,
                   vd_orientation = snd (detectOrientation (ring3d 10 0 20))\<rparr>,
             rest)"
proof -
  have c: "fitCylinder (ring3d 10 0 20) (Some (0, 1, 0)) (ring_tape @ rest)
           = Some (Some \<lparr>cf_center = (1, 0, 0), cf_radius = 1, cf_height = 20 - 0,
                          cf_axis = Some (0, 1, 0), cf_confidence = 1\<rparr>, rest)"
    by (rule fitCylinder_ring3d) simp_all
  have r: "fitCircleRANSAC [(0, 0)] 200 (5 / 100) (ring_tape @ rest) = Some (None, ring_tape @ rest)"
    by (simp add: fitCircleRANSAC_def)
  show ?thesis
    unfolding detectVolume_def Let_def ring_ply_fields ring3d_length
      findRimHeight_ring_mid rimPoints_ring_mid r
    by (simp add: c split: prod.split)
qed

section \<open>Theorems: cylinder fit and volume detection\<close>

text \<open>
  Claim C8. Every successful result of \<open>detectVolume\<close>, on the rim-circle path and on the
  fallback path alike, has a cylinder of radius greater than 0 and height greater than 0.
  The fallback inherits both from \<open>fitCylinder\<close>, whose radius comes from a circle
  \<open>fitCircle2D\<close> returned and whose height passed the check \<open>height \<le> 0\<close>; the rim-circle
  path multiplies a positive radius by 0.85 and floors the height at 0.01.
\<close>

theorem detectVolume_cylinder_positive:
  "(detectVolume ply t = Some (Some res, t') \<longrightarrow>
      0 < cf_radius (vd_cylinder res) \<and> 0 < cf_height (vd_cylinder res)) \<and>
   (fitCylinder positions axis t = Some (Some cyl, t') \<longrightarrow>
      0 < cf_radius cyl \<and> 0 < cf_height cyl) \<and>
   (fitCircleRANSAC points iterations threshold t = Some (Some circle, t') \<longrightarrow>
      0 < c2_radius circle)"
  using detectVolume_positive fitCylinder_positive fitCircleRANSAC_radius_pos by blast

theorem detectVolume_cylinder_positive_witness:
  "\<exists>res. detectVolume (ring_ply 10 0 20) ring_tape = Some (Some res, []) \<and>
         cf_radius (vd_cylinder res) = 1 \<and> cf_height (vd_cylinder res) = 20 \<and>
         cf_confidence (vd_cylinder res) = 1 \<and>
         0 < cf_radius (vd_cylinder res) \<and> 0 < cf_height (vd_cylinder res)"
proof -
  let ?res = "\<lparr>vd_cylinder =
                     \<lparr>cf_center = (1, 0, 0), cf_radius = 1, cf_height = 20,
                      cf_axis = Some (0, 1, 0), cf_confidence = 1\<rparr>,
                   vd_rimHeight = 20,
                   vd_baseHeight = 0,
                   vd_interiorVolume = pi * 20,
                   vd_orientation = snd (detectOrientation (ring3d 10 0 20))\<rparr>"
  have run: "detectVolume (ring_ply 10 0 20) ring_tape = Some (Some ?res, [])"
    using detectVolume_ring_mid [of "[]"] by simp
  then have "0 < cf_radius (vd_cylinder ?res) \<and> 0 < cf_height (vd_cylinder ?res)"
    using detectVolume_cylinder_positive [of "ring_ply 10 0 20" ring_tape ?res "[]"] by blast
  then show ?thesis using run by simp
qed

lemma detectVolume_normal:
  assumes "100 \<le> length (getPositions ply)"
    and "detectVolume_rimCircle ply t = Some (Some rimCircle, t')"
  shows "detectVolume ply t =
     Some (Some \<lparr>vd_cylinder =
                    \<lparr>cf_center = (fst (c2_center rimCircle), fst (snd (b_min (ply_bounds ply))),
                                  snd (c2_center rimCircle)),
                     cf_radius = c2_radius rimCircle * (85 / 100),
                     cf_height = max (1 / 100)
                       (detectVolume_rimHeight ply - fst (snd (b_min (ply_bounds ply)))),
                     cf_axis = fst (detectOrientation (getPositions ply)),
                     cf_confidence = 8 / 10\<rparr>,
                  vd_rimHeight = detectVolume_rimHeight ply,
                  vd_baseHeight = fst (snd (b_min (ply_bounds ply))),
                  vd_interiorVolume = max 0 (pi * (c2_radius rimCircle * (85 / 100))\<^sup>2 *
                       (detectVolume_rimHeight ply - fst (snd (b_min (ply_bounds ply))))),
                  vd_orientation = snd (detectOrientation (getPositions ply))\<rparr>, t')"
proof -
  have len: "\<not> length (getPositions ply) < 100" using assms(1) by simp
  show ?thesis
    using assms(2) len
    unfolding detectVolume_def detectVolume_rimCircle_def detectVolume_rimHeight_def Let_def
    by (simp split: prod.split)
qed

text \<open>
  Claim C4, as amended. Whenever the rim-circle fit of \<open>detectVolume\<close> succeeds, the result
  has \<open>cylinder.radius = 0.85 * rimCircle.radius\<close>, \<open>baseHeight\<close> the bottom of the vertical
  bounds, \<open>cylinder.center = (rimCenterX, baseHeight, rimCenterZ)\<close>,
  \<open>cylinder.height = max(0.01, rimHeight - baseHeight)\<close>, \<open>cylinder.confidence = 0.8\<close>, and
  \<open>interiorVolume = max(0, pi * cylinder.radius\<^sup>2 * (rimHeight - baseHeight))\<close>: the volume
  is computed from the height difference before it is floored. It equals
  \<open>pi * cylinder.radius\<^sup>2 * cylinder.height\<close> whenever \<open>rimHeight - baseHeight\<close> is at least 0.01.
\<close>

theorem detectVolume_normal_path:
  assumes "100 \<le> length (getPositions ply)"
    and "detectVolume_rimCircle ply t = Some (Some rimCircle, t')"
  shows "\<exists>res. detectVolume ply t = Some (Some res, t') \<and>
      cf_radius (vd_cylinder res) = (85 / 100) * c2_radius rimCircle \<and>
      vd_baseHeight res = fst (snd (b_min (ply_bounds ply))) \<and>
      vd_rimHeight res = detectVolume_rimHeight ply \<and>
      cf_center (vd_cylinder res) =
        (fst (c2_center rimCircle), vd_baseHeight res, snd (c2_center rimCircle)) \<and>
      cf_height (vd_cylinder res) = max (1 / 100) (vd_rimHeight res - vd_baseHeight res) \<and>
      cf_confidence (vd_cylinder res) = 8 / 10 \<and>
      vd_interiorVolume res =
        max 0 (pi * (cf_radius (vd_cylinder res))\<^sup>2 * (vd_rimHeight res - vd_baseHeight res)) \<and>
      (1 / 100 \<le> vd_rimHeight res - vd_baseHeight res \<longrightarrow>
         vd_interiorVolume res =
           pi * (cf_radius (vd_cylinder res))\<^sup>2 * cf_height (vd_cylinder res))"
proof -
  have nonneg: "\<And>r h :: real. 1 / 100 \<le> h \<Longrightarrow> max 0 (pi * r\<^sup>2 * h) = pi * r\<^sup>2 * max (1 / 100) h"
    by (simp add: max_def)
  show ?thesis
    unfolding detectVolume_normal [OF assms]
    by (intro exI conjI impI, rule refl) (simp_all add: nonneg)
qed

lemma rimCircle_ring:
  assumes "lo < hi"
  shows "detectVolume_rimCircle (ring_ply (rimY lo hi) lo hi) (ring_tape @ rest)
           = Some (Some unit_circle, rest)"
proof -
  have r: "fitCircleRANSAC (ring2d 96) 200 (5 / 100) (ring_tape @ rest) = Some (Some unit_circle, rest)"
    by (rule fitCircleRANSAC_ring2d) simp_all
  show ?thesis
    unfolding detectVolume_rimCircle_def detectVolume_rimHeight_def ring_ply_fields
      findRimHeight_ring [OF assms] rimPoints_ring [OF assms] by (rule r)
qed

theorem detectVolume_normal_path_witness:
  "\<exists>res. detectVolume (ring_ply (39 / 2) 0 20) ring_tape = Some (Some res, []) \<and>
         cf_radius (vd_cylinder res) = 85 / 100 \<and>
         cf_center (vd_cylinder res) = (1, 0, 0) \<and>
         cf_height (vd_cylinder res) = 39 / 2 \<and>
         vd_interiorVolume res = pi * (85 / 100)\<^sup>2 * (39 / 2)"
proof -
  have y: "rimY 0 20 = 39 / 2" by (simp add: rimY_def)
  have len: "100 \<le> length (getPositions (ring_ply (39 / 2) 0 20))"
    by (simp add: ring_ply_fields ring3d_length)
  have rc: "detectVolume_rimCircle (ring_ply (39 / 2) 0 20) ring_tape = Some (Some unit_circle, [])"
    using rimCircle_ring [of 0 20 "[]"] by (simp add: y)
  have rh: "detectVolume_rimHeight (ring_ply (39 / 2) 0 20) = 39 / 2"
    using findRimHeight_ring [of 0 20] by (simp add: detectVolume_rimHeight_def ring_ply_fields y)
  show ?thesis
    using detectVolume_normal_path [OF len rc]
    by (auto simp add: rh ring_ply_fields unit_circle_def)
qed

text \<open>
  Claim C4 as first stated takes the floored height for the volume too. For a cup one
  hundredth of a unit tall the rim is 0.00975 above the base: the cylinder gets the height
  0.01 and the volume is computed from 0.00975.
\<close>

theorem detectVolume_volume_counterexample:
  "detectVolume_rimCircle (ring_ply (39 / 4000) 0 (1 / 100)) ring_tape
     = Some (Some unit_circle, []) \<and>
   detectVolume (ring_ply (39 / 4000) 0 (1 / 100)) ring_tape = Some (Some tiny_cup_result, []) \<and>
   cf_height (vd_cylinder tiny_cup_result) = max (1 / 100) (39 / 4000 - 0) \<and>
   vd_interiorVolume tiny_cup_result
     \<noteq> max 0 (pi * (cf_radius (vd_cylinder tiny_cup_result))\<^sup>2
                  * cf_height (vd_cylinder tiny_cup_result))"
proof -
  have y: "rimY 0 (1 / 100) = 39 / 4000" by (simp add: rimY_def)
  have rc: "detectVolume_rimCircle (ring_ply (39 / 4000) 0 (1 / 100)) ring_tape
     = Some (Some unit_circle, [])"
    using rimCircle_ring [of 0 "1 / 100" "[]"] by (simp add: y)
  have run: "detectVolume (ring_ply (39 / 4000) 0 (1 / 100)) ring_tape = Some (Some tiny_cup_result, [])"
    using detectVolume_ring [of 0 "1 / 100" "[]"] by (simp add: y tiny_cup_result_def)
  have h: "cf_height (vd_cylinder tiny_cup_result) = max (1 / 100) (39 / 4000 - 0)"
    by (simp add: tiny_cup_result_def)
  have "pi * (85 / 100)\<^sup>2 * (39 / 4000) < pi * (85 / 100)\<^sup>2 * (1 / 100)"
    by simp
  then have v: "vd_interiorVolume tiny_cup_result
     \<noteq> max 0 (pi * (cf_radius (vd_cylinder tiny_cup_result))\<^sup>2
                  * cf_height (vd_cylinder tiny_cup_result))"
    by (simp add: tiny_cup_result_def max_def)
  show ?thesis using rc run h v by blast
qed

lemma dropY_xz: "map (spec_dropAxisCoordinate AxisY) positions = map (\<lambda>(x, y, z). (x, z)) positions"
  by (rule map_cong) auto

lemma fitCylinder_axis_only:
  "fitCylinder positions axis' t =
     map_option (\<lambda>(r, t'). (map_option (\<lambda>c. c\<lparr>cf_axis := axis'\<rparr>) r, t'))
       (fitCylinder positions axis t)"
  by (simp add: fitCylinder_def Let_def split: option.split prod.split)

text \<open>
  Claim C6, as amended. For every axis argument \<open>fitCylinder\<close> fits the circle to the XZ
  components of the points: it drops the \<open>y\<close> coordinate, which is the projection
  orthogonal to the axis only when the axis is the vertical one. The cylinder it returns
  stands on the circle \<open>fitCircleRANSAC\<close> returns for those components, and the axis
  argument does nothing but fill the result's \<open>axis\<close> field.
\<close>

theorem fitCylinder_projects_xz:
  "(fitCylinder positions axis t = Some (Some cyl, t') \<longrightarrow>
      10 \<le> length positions \<and> cf_axis cyl = axis \<and>
      fitCircleRANSAC (map (spec_dropAxisCoordinate AxisY) positions) 200 (5 / 100) t
        = Some (Some (circleOf cyl), t')) \<and>
   fitCylinder positions axis' t =
     map_option (\<lambda>(r, t'). (map_option (\<lambda>c. c\<lparr>cf_axis := axis'\<rparr>) r, t'))
       (fitCylinder positions axis t)"
proof (intro conjI impI)
  assume a: "fitCylinder positions axis t = Some (Some cyl, t')"
  from fitCylinder_Some [OF a] obtain circle where
    r: "fitCircleRANSAC (map (\<lambda>(x, y, z). (x, z)) positions) 200 (5 / 100) t
          = Some (Some circle, t')"
    and len: "10 \<le> length positions"
    and rad: "cf_radius cyl = c2_radius circle"
    and ctr: "cf_center cyl = (fst (c2_center circle),
                            Min (set (map (\<lambda>(x, y, z). y) positions)),
                            snd (c2_center circle))"
    and ax: "cf_axis cyl = axis"
    by blast
  have "circleOf cyl = circle" by (simp add: circleOf_def rad ctr)
  then show "fitCircleRANSAC (map (spec_dropAxisCoordinate AxisY) positions) 200 (5 / 100) t
        = Some (Some (circleOf cyl), t')"
    using r by (simp only: dropY_xz)
  show "10 \<le> length positions" by (rule len)
  show "cf_axis cyl = axis" by (rule ax)
next
  show "fitCylinder positions axis' t =
     map_option (\<lambda>(r, t'). (map_option (\<lambda>c. c\<lparr>cf_axis := axis'\<rparr>) r, t'))
       (fitCylinder positions axis t)"
    by (rule fitCylinder_axis_only)
qed

theorem fitCylinder_projects_xz_witness:
  "fitCylinder (ring3d 10 0 20) (Some (axisVector AxisZ)) ring_tape
     = Some (Some \<lparr>cf_center = (1, 0, 0), cf_radius = 1, cf_height = 20,
                    cf_axis = Some (0, 0, 1), cf_confidence = 1\<rparr>, []) \<and>
   fitCircleRANSAC (map (spec_dropAxisCoordinate AxisY) (ring3d 10 0 20)) 200 (5 / 100) ring_tape
     = Some (Some \<lparr>c2_center = (1, 0), c2_radius = 1\<rparr>, [])"
proof -
  let ?cyl = "\<lparr>cf_center = (1, 0, 0), cf_radius = 1, cf_height = 20,
                    cf_axis = Some (0, 0, 1), cf_confidence = 1\<rparr>"
  have run: "fitCylinder (ring3d 10 0 20) (Some (axisVector AxisZ)) ring_tape = Some (Some ?cyl, [])"
    using fitCylinder_ring3d [of 0 10 20 "Some (0, 0, 1)" "[]"] by simp
  then have "fitCircleRANSAC (map (spec_dropAxisCoordinate AxisY) (ring3d 10 0 20)) 200 (5 / 100) ring_tape
     = Some (Some (circleOf ?cyl), [])"
    using fitCylinder_projects_xz [of "ring3d 10 0 20" "Some (axisVector AxisZ)" ring_tape ?cyl "[]"]
    by blast
  then show ?thesis using run by (simp add: circleOf_def)
qed

text \<open>
  Claim C6 as first stated has the points projected orthogonally to whatever axis is given.
  With the \<open>x\<close> axis and the example cloud, the components orthogonal to the axis admit no
  circle on this run, yet \<open>fitCylinder\<close> returns the cylinder fitted to the XZ components.
\<close>

theorem fitCylinder_axis_counterexample:
  "fitCylinder (ring3d 10 0 20) (Some (axisVector AxisX)) ring_tape
     = Some (Some \<lparr>cf_center = (1, 0, 0), cf_radius = 1, cf_height = 20,
                    cf_axis = Some (1, 0, 0), cf_confidence = 1\<rparr>, []) \<and>
   fitCircleRANSAC (map (spec_dropAxisCoordinate AxisX) (ring3d 10 0 20)) 200 (5 / 100) ring_tape
     = Some (None, []) \<and>
   fitCircleRANSAC (map (spec_dropAxisCoordinate AxisX) (ring3d 10 0 20)) 200 (5 / 100) ring_tape
     \<noteq> Some (Some (circleOf \<lparr>cf_center = (1, 0, 0), cf_radius = 1, cf_height = 20,
                    cf_axis = Some (1, 0, 0), cf_confidence = 1\<rparr>), [])"
proof -
  have run: "fitCylinder (ring3d 10 0 20) (Some (axisVector AxisX)) ring_tape
     = Some (Some \<lparr>cf_center = (1, 0, 0), cf_radius = 1, cf_height = 20,
                    cf_axis = Some (1, 0, 0), cf_confidence = 1\<rparr>, [])"
    using fitCylinder_ring3d [of 0 10 20 "Some (1, 0, 0)" "[]"] by simp
  have none: "fitCircleRANSAC (map (spec_dropAxisCoordinate AxisX) (ring3d 10 0 20)) 200 (5 / 100)
      ring_tape = Some (None, [])"
    using fitCircleRANSAC_ring3d_dropX [of "5 / 100" 10 0 20 "[]"] by simp
  show ?thesis using run none by simp
qed

section \<open>Theorems: double precision\<close>

text \<open>
  Evaluation of \<open>fl\<close> at a rational number: the exponent by its recursion, the rounded
  mantissa by the floor. It is only ever applied to concrete arguments.
\<close>

lemmas f64_eval = fl_def f64_exponent.simps pow2_def round_even_def Let_def

subsection \<open>Rim detection as the code rounds it\<close>
















subsection \<open>The circle fit as the code rounds it\<close>

text \<open>
  \<open>fl\<close> of a positive number is determined by its binade and its rounded mantissa; this
  evaluates the rounded square root, which is not rational.
\<close>

lemma pow2_pos: "0 < pow2 e"
  by (simp add: pow2_def)

lemma pow2_powr: "pow2 e = 2 powr (real_of_int e)"
proof (cases "0 \<le> e")
  case True
  then have "2 powr (real_of_int e) = 2 powr (real (nat e))" by simp
  also have "\<dots> = 2 ^ nat e" by (simp only: powr_realpow [of 2, simplified])
  finally show ?thesis using True by (simp add: pow2_def)
next
  case False
  then have "2 powr (real_of_int e) = 2 powr (- real (nat (- e)))" by simp
  also have "\<dots> = 1 / 2 powr (real (nat (- e)))" by (simp only: powr_minus_divide)
  also have "\<dots> = 1 / 2 ^ nat (- e)" by (simp only: powr_realpow [of 2, simplified])
  finally show ?thesis using False by (simp add: pow2_def)
qed

lemma pow2_succ: "pow2 (e + 1) = 2 * pow2 e"
  by (simp add: pow2_powr powr_add)

lemma pow2_mono: "a \<le> b \<Longrightarrow> pow2 a \<le> pow2 b"
  by (simp add: pow2_powr)

lemma f64_exponent_bounds:
  "0 < x \<Longrightarrow> pow2 (f64_exponent x) \<le> x \<and> x < pow2 (f64_exponent x + 1)"
proof (induction x rule: f64_exponent.induct)
  case (1 x)
  show ?case
  proof (cases "2 \<le> x")
    case True
    then have e: "f64_exponent x = f64_exponent (x / 2) + 1"
      by (subst f64_exponent.simps) simp
    have "pow2 (f64_exponent (x / 2)) \<le> x / 2 \<and> x / 2 < pow2 (f64_exponent (x / 2) + 1)"
      using "1.IH"(1) [OF True] "1.prems" by simp
    then show ?thesis unfolding e pow2_succ by simp
  next
    case False
    show ?thesis
    proof (cases "x < 1")
      case True
      then have e: "f64_exponent x = f64_exponent (2 * x) - 1"
        using False "1.prems" by (subst f64_exponent.simps) simp
      have ih: "pow2 (f64_exponent (2 * x)) \<le> 2 * x \<and> 2 * x < pow2 (f64_exponent (2 * x) + 1)"
        using "1.IH"(2) [OF False] True "1.prems" by simp
      have "pow2 (f64_exponent (2 * x)) = 2 * pow2 (f64_exponent (2 * x) - 1)"
        using pow2_succ [of "f64_exponent (2 * x) - 1"] by simp
      then show ?thesis using ih unfolding e pow2_succ by simp
    next
      case notless: False
      then have e: "f64_exponent x = 0"
        using False by (subst f64_exponent.simps) simp
      show ?thesis unfolding e using notless False by (simp add: pow2_def)
    qed
  qed
qed

lemma f64_exponent_unique:
  assumes "pow2 k \<le> x" "x < pow2 (k + 1)"
  shows "f64_exponent x = k"
proof -
  have pos: "0 < x" using assms(1) pow2_pos [of k] by linarith
  note b = f64_exponent_bounds [OF pos]
  have "\<not> f64_exponent x < k"
  proof
    assume "f64_exponent x < k"
    then have "pow2 (f64_exponent x + 1) \<le> pow2 k" by (intro pow2_mono) simp
    then show False using b assms(1) by linarith
  qed
  moreover have "\<not> k < f64_exponent x"
  proof
    assume "k < f64_exponent x"
    then have "pow2 (k + 1) \<le> pow2 (f64_exponent x)" by (intro pow2_mono) simp
    then show False using b assms(2) by linarith
  qed
  ultimately show ?thesis by simp
qed

lemma round_even_unique:
  assumes "\<bar>m - of_int M\<bar> < 1 / 2"
  shows "round_even m = M"
proof (cases "of_int M \<le> m")
  case True
  then have "\<lfloor>m\<rfloor> = M" using assms by linarith
  then show ?thesis using assms True by (simp add: round_even_def Let_def)
next
  case False
  then have f: "\<lfloor>m\<rfloor> = M - 1" using assms by linarith
  have "1 / 2 < m - of_int (M - 1)" using assms False by simp
  then show ?thesis using f by (simp add: round_even_def Let_def)
qed

lemma fl_eqI:
  assumes "pow2 k \<le> x" "x < pow2 (k + 1)"
    and "\<bar>x / pow2 (k - 52) - of_int M\<bar> < 1 / 2"
  shows "fl x = of_int M * pow2 (k - 52)"
proof -
  have pos: "0 < x" using assms(1) pow2_pos [of k] by linarith
  then have e: "f64_exponent \<bar>x\<bar> = k" using f64_exponent_unique [OF assms(1,2)] by simp
  have ax: "\<bar>x\<bar> = x" using pos by simp
  have ne: "x \<noteq> 0" using pos by simp
  show ?thesis
    unfolding fl_def Let_def e round_even_unique [OF assms(3)] using ne by simp
qed

lemma fitCircle2D_f64_steps:
  assumes "length points = 3"
    and "fold (\<lambda>(x, y) s. fl (s + x)) points 0 = sumX"
    and "fold (\<lambda>(x, y) s. fl (s + y)) points 0 = sumY"
    and "fold (\<lambda>(x, y) s. fl (s + fl (x * x))) points 0 = sumX2"
    and "fold (\<lambda>(x, y) s. fl (s + fl (y * y))) points 0 = sumY2"
    and "fold (\<lambda>(x, y) s. fl (s + fl (x * y))) points 0 = sumXY"
    and "fold (\<lambda>(x, y) s. fl (s + fl (fl (x * x) * x))) points 0 = sumX3"
    and "fold (\<lambda>(x, y) s. fl (s + fl (fl (y * y) * y))) points 0 = sumY3"
    and "fold (\<lambda>(x, y) s. fl (s + fl (fl (x * x) * y))) points 0 = sumX2Y"
    and "fold (\<lambda>(x, y) s. fl (s + fl (fl (x * y) * y))) points 0 = sumXY2"
    and "fl (fl (sumX3 + sumXY2) / 2) = b0"
    and "fl (fl (sumX2Y + sumY3) / 2) = b1"
    and "fl (fl (sumX2 + sumY2) / 2) = b2"
    and "determinant3x3_f64 [[sumX2, sumXY, sumX], [sumXY, sumY2, sumY], [sumX, sumY, 3]] = det"
    and "\<not> \<bar>det\<bar> < fl (1 / 10 ^ 10)"
    and "fl (determinant3x3_f64 [[b0, sumXY, sumX], [b1, sumY2, sumY], [b2, sumY, 3]] / det) = a"
    and "fl (determinant3x3_f64 [[sumX2, b0, sumX], [sumXY, b1, sumY], [sumX, b2, 3]] / det) = b"
    and "fl (determinant3x3_f64 [[sumX2, sumXY, b0], [sumXY, sumY2, b1], [sumX, sumY, b2]] / det) = c"
    and "fl (fl (c + fl (a * a)) + fl (b * b)) = radicand"
    and "0 \<le> radicand" and "fl (sqrt radicand) = radius" and "0 < radius"
  shows "fitCircle2D_f64 points = Some \<lparr>c2_center = (a, b), c2_radius = radius\<rparr>"
  unfolding fitCircle2D_f64_def Let_def assms(1-13) replaceColumn_3x3
  using assms(15,20,22)
  by (simp add: assms(14) assms(16-19) assms(21) Math_sqrt_f64_def)

text \<open>
  The run of \<open>fitCircle2D_f64\<close> on the three collinear points, step by step: the nine sums,
  the right-hand side, the four determinants, the guard, the solution and the radius.
\<close>

lemma collinear_points_eval: "collinear_points = [(5685794529555251 / 2 ^ 49, 8106479329266893 / 2 ^ 50), (5713942027226317 / 2 ^ 48, 8106479329266893 / 2 ^ 50), (8641281785017139 / 2 ^ 48, 8106479329266893 / 2 ^ 50)]"
  by (simp add: collinear_points_def f64_eval split del: if_split)

lemma collinear_sums:
  "fold (\<lambda>(x, y) s. fl (s + x)) collinear_points 0 = 2149765134627635 / 2 ^ 45"
  "fold (\<lambda>(x, y) s. fl (s + y)) collinear_points 0 = 3039929748475085 / 2 ^ 47"
  "fold (\<lambda>(x, y) s. fl (s + fl (x * x))) collinear_points 0 = 400384410475561 / 2 ^ 38"
  "fold (\<lambda>(x, y) s. fl (s + fl (y * y))) collinear_points 0 = 5471873547255153 / 2 ^ 45"
  "fold (\<lambda>(x, y) s. fl (s + fl (x * y))) collinear_points 0 = 3869577242329743 / 2 ^ 43"
  "fold (\<lambda>(x, y) s. fl (s + fl (fl (x * x) * x))) collinear_points 0 = 1317014647160701 / 2 ^ 35"
  "fold (\<lambda>(x, y) s. fl (s + fl (fl (y * y) * y))) collinear_points 0 = 2462343096264819 / 2 ^ 41"
  "fold (\<lambda>(x, y) s. fl (s + fl (fl (x * x) * y))) collinear_points 0 = 2882767755424039 / 2 ^ 38"
  "fold (\<lambda>(x, y) s. fl (s + fl (fl (x * y) * y))) collinear_points 0 = 3482619518096769 / 2 ^ 40"
  unfolding collinear_points_eval by (simp_all add: f64_eval split del: if_split)

lemma collinear_rhs:
  "fl (fl (1317014647160701 / 2 ^ 35 + 3482619518096769 / 2 ^ 40) / 2) = 1425846507101225 / 2 ^ 36"
  "fl (fl (2882767755424039 / 2 ^ 38 + 2462343096264819 / 2 ^ 41) / 2) = 6381121284914283 / 2 ^ 40"
  "fl (fl (400384410475561 / 2 ^ 38 + 5471873547255153 / 2 ^ 45) / 2) = 3545067380507935 / 2 ^ 42"
  by (simp_all add: f64_eval split del: if_split)

lemma collinear_det:
  "determinant3x3_f64 [[400384410475561 / 2 ^ 38, 3869577242329743 / 2 ^ 43, 2149765134627635 / 2 ^ 45], [3869577242329743 / 2 ^ 43, 5471873547255153 / 2 ^ 45, 3039929748475085 / 2 ^ 47], [2149765134627635 / 2 ^ 45, 3039929748475085 / 2 ^ 47, 3]] = 3869577242329743 / 2 ^ 85"
  by (simp add: determinant3x3_f64_def f64_eval split del: if_split)

lemma collinear_det0:
  "determinant3x3_f64 [[1425846507101225 / 2 ^ 36, 3869577242329743 / 2 ^ 43, 2149765134627635 / 2 ^ 45], [6381121284914283 / 2 ^ 40, 5471873547255153 / 2 ^ 45, 3039929748475085 / 2 ^ 47], [3545067380507935 / 2 ^ 42, 3039929748475085 / 2 ^ 47, 3]] = 3869577242329743 / 2 ^ 81"
  by (simp add: determinant3x3_f64_def f64_eval split del: if_split)

lemma collinear_det1:
  "determinant3x3_f64 [[400384410475561 / 2 ^ 38, 1425846507101225 / 2 ^ 36, 2149765134627635 / 2 ^ 45], [3869577242329743 / 2 ^ 43, 6381121284914283 / 2 ^ 40, 3039929748475085 / 2 ^ 47], [2149765134627635 / 2 ^ 45, 3545067380507935 / 2 ^ 42, 3]] = - (175691134801019 / 2 ^ 78)"
  by (simp add: determinant3x3_f64_def f64_eval split del: if_split)

lemma collinear_det2:
  "determinant3x3_f64 [[400384410475561 / 2 ^ 38, 3869577242329743 / 2 ^ 43, 1425846507101225 / 2 ^ 36], [3869577242329743 / 2 ^ 43, 5471873547255153 / 2 ^ 45, 6381121284914283 / 2 ^ 40], [2149765134627635 / 2 ^ 45, 3039929748475085 / 2 ^ 47, 3545067380507935 / 2 ^ 42]] = 0"
  by (simp add: determinant3x3_f64_def f64_eval split del: if_split)

lemma collinear_guard: "\<not> \<bar>3869577242329743 / 2 ^ 85\<bar> < fl (1 / 10 ^ 10)"
  by (simp add: f64_eval split del: if_split)

lemma collinear_solution:
  "fl (3869577242329743 / 2 ^ 81 / (3869577242329743 / 2 ^ 85)) = 16"
  "fl (- (175691134801019 / 2 ^ 78) / (3869577242329743 / 2 ^ 85)) = - (3271644335992789 / 2 ^ 49)"
  "fl (0 / (3869577242329743 / 2 ^ 85)) = 0"
  by (simp_all add: f64_eval split del: if_split)

lemma collinear_radicand:
  "fl (fl (0 + fl (16 * 16)) + fl ((- (3271644335992789 / 2 ^ 49)) * (- (3271644335992789 / 2 ^ 49)))) = 1274442982754925 / 2 ^ 42"
  by (simp add: f64_eval split del: if_split)


lemma abs_less_halfI:
  fixes y :: real
  shows "real_of_int M - 1 / 2 < y \<Longrightarrow> y < real_of_int M + 1 / 2
    \<Longrightarrow> \<bar>y - real_of_int M\<bar> < 1 / 2"
  by linarith

lemma collinear_radius:
  "fl (sqrt (1274442982754925 / 2 ^ 42)) = 2395742252881145 / 2 ^ 47"
proof -
  let ?q = "1274442982754925 / 2 ^ 42 :: real"
  have lo: "16 \<le> sqrt ?q" by (rule real_le_rsqrt) simp
  have hi: "sqrt ?q < 32" by (rule real_less_lsqrt) simp_all
  have h: "sqrt (2 ^ 96 :: real) = 2 ^ 48" by (rule real_sqrt_unique) simp_all
  have s: "sqrt ?q / pow2 (4 - 52) = sqrt (?q * 2 ^ 96)"
    unfolding real_sqrt_mult h by (simp add: pow2_def)
  have a: "4791484505762290 - 1 / 2 < sqrt (?q * 2 ^ 96)" by (rule real_less_rsqrt) (simp add: power2_eq_square)
  have b: "sqrt (?q * 2 ^ 96) < 4791484505762290 + 1 / 2"
    by (rule real_less_lsqrt) (simp_all add: power2_eq_square)
  have "fl (sqrt ?q) = of_int 4791484505762290 * pow2 (4 - 52)"
  proof (rule fl_eqI)
    show "pow2 4 \<le> sqrt ?q" using lo by (simp add: pow2_def)
    show "sqrt ?q < pow2 (4 + 1)" using hi by (simp add: pow2_def)
    show "\<bar>sqrt ?q / pow2 (4 - 52) - of_int 4791484505762290\<bar> < 1 / 2"
      unfolding s by (rule abs_less_halfI) (use a b in simp_all)
  qed
  then show ?thesis by (simp add: pow2_def)
qed

text \<open>
  Claim C5 says that \<open>fitCircle2D\<close> returns no result on three collinear points. The three
  points \<^verbatim>\<open>(10.1, 7.2)\<close>, \<^verbatim>\<open>(20.3, 7.2)\<close>, \<^verbatim>\<open>(30.7, 7.2)\<close> are collinear, and with exact
  arithmetic the determinant of the normal equations is 0 and there is no result. In
  double precision the sums round, the computed determinant is
  \<open>3869577242329743 / 2 ^ 85\<close>, about \<^verbatim>\<open>1.0003e-10\<close>, which is not below the guard \<^verbatim>\<open>1e-10\<close>,
  and the code returns a circle with centre \<^verbatim>\<open>(16, -5.8116...)\<close> and radius
  \<^verbatim>\<open>17.0227...\<close>.
\<close>

theorem fitCircle2D_f64_collinear_circle:
  "collinear3 (collinear_points ! 0) (collinear_points ! 1) (collinear_points ! 2) \<and>
   fitCircle2D collinear_points = None \<and>
   fitCircle2D_f64 collinear_points
     = Some \<lparr>c2_center = (16, - (3271644335992789 / 2 ^ 49)),
              c2_radius = 2395742252881145 / 2 ^ 47\<rparr>"
proof -
  have col: "collinear3 (collinear_points ! 0) (collinear_points ! 1) (collinear_points ! 2)"
    by (simp add: collinear_points_def collinear3_def)
  have len: "length collinear_points = 3" by (simp add: collinear_points_def)
  have "collinear_points = [collinear_points ! 0, collinear_points ! 1, collinear_points ! 2]"
    by (simp add: collinear_points_def)
  then have exact: "fitCircle2D collinear_points = None"
    using spec_det_collinear [OF col] by (simp add: fitCircle2D_spec)
  have f: "fitCircle2D_f64 collinear_points
     = Some \<lparr>c2_center = (16, - (3271644335992789 / 2 ^ 49)),
              c2_radius = 2395742252881145 / 2 ^ 47\<rparr>"
  proof (rule fitCircle2D_f64_steps [OF len collinear_sums collinear_rhs collinear_det
          collinear_guard _ _ _ collinear_radicand _ collinear_radius])
    show "fl (determinant3x3_f64 
        [[1425846507101225 / 2 ^ 36, 3869577242329743 / 2 ^ 43, 2149765134627635 / 2 ^ 45],
         [6381121284914283 / 2 ^ 40, 5471873547255153 / 2 ^ 45, 3039929748475085 / 2 ^ 47],
         [3545067380507935 / 2 ^ 42, 3039929748475085 / 2 ^ 47, 3]] / (3869577242329743 / 2 ^ 85)) = 16"
      unfolding collinear_det0 by (rule collinear_solution)
    show "fl (determinant3x3_f64 
        [[400384410475561 / 2 ^ 38, 1425846507101225 / 2 ^ 36, 2149765134627635 / 2 ^ 45],
         [3869577242329743 / 2 ^ 43, 6381121284914283 / 2 ^ 40, 3039929748475085 / 2 ^ 47],
         [2149765134627635 / 2 ^ 45, 3545067380507935 / 2 ^ 42, 3]] / (3869577242329743 / 2 ^ 85))
        = - (3271644335992789 / 2 ^ 49)"
      unfolding collinear_det1 by (rule collinear_solution)
    show "fl (determinant3x3_f64 
        [[400384410475561 / 2 ^ 38, 3869577242329743 / 2 ^ 43, 1425846507101225 / 2 ^ 36],
         [3869577242329743 / 2 ^ 43, 5471873547255153 / 2 ^ 45, 6381121284914283 / 2 ^ 40],
         [2149765134627635 / 2 ^ 45, 3039929748475085 / 2 ^ 47, 3545067380507935 / 2 ^ 42]] / (3869577242329743 / 2 ^ 85)) = 0"
      unfolding collinear_det2 by (rule collinear_solution)
  qed simp_all
  show ?thesis using col exact f by simp
qed

end
